theory Spec2Isabelle
  imports Complex_Main
begin

section \<open>The JavaScript \<open>Map\<close> used by the in-memory backend\<close>

text \<open>
  \<open>MemStorage\<close> keeps every collection in a \<open>Map<number, T>\<close>. A JavaScript map iterates in
  insertion order, \<open>set\<close> on a key that is present replaces the value in place and \<open>set\<close> on a
  new key appends, \<open>delete\<close> answers whether the key was present. The model is an association
  list in insertion order. Keys are the numeric ids; they are natural numbers here (the
  counters start at 1 and only grow, a key that is absent is any number not in the list).
\<close>

type_synonym 'a Map = "(nat \<times> 'a) list"

definition Map_get :: "'a Map \<Rightarrow> nat \<Rightarrow> 'a option" where
  "Map_get m k = map_of m k"

fun Map_set :: "nat \<Rightarrow> 'a \<Rightarrow> 'a Map \<Rightarrow> 'a Map" where
  "Map_set k v [] = [(k, v)]"
| "Map_set k v (e # m) = (if fst e = k then (k, v) # m else e # Map_set k v m)"

definition Map_has :: "'a Map \<Rightarrow> nat \<Rightarrow> bool" where
  "Map_has m k = (k \<in> set (map fst m))"

definition Map_delete :: "nat \<Rightarrow> 'a Map \<Rightarrow> bool \<times> 'a Map" where
  "Map_delete k m = (Map_has m k, filter (\<lambda>e. fst e \<noteq> k) m)"

definition Map_values :: "'a Map \<Rightarrow> 'a list" where
  "Map_values m = map snd m"

text \<open>\<open>new Map(entries)\<close>: the entries are set one after the other, a later one wins.\<close>

definition new_Map :: "(nat \<times> 'a) list \<Rightarrow> 'a Map" where
  "new_Map entries = foldl (\<lambda>m e. Map_set (fst e) (snd e) m) [] entries"

section \<open>Entity model\<close>

text \<open>
  The record shapes come from \<open>@shared/schema\<close>, which the storage module imports; the fields
  are the ones the storage and route code reads and writes. Each \<open>InsertX\<close> is the creation
  payload and \<open>X\<close> extends it with what the store assigns, as the spread
  \<open>{ ...x, id }\<close> does. Prices and totals are JavaScript numbers that the code only copies
  and tests for truthiness; they are rationals here. A nullable field is an \<open>option\<close>.
\<close>

record InsertUser =
  u_username :: string
  u_password :: string
  u_email :: string
  u_fullName :: "string option"
  u_address :: "string option"

record User = InsertUser +
  u_id :: nat
  u_isAdmin :: bool

record InsertCategory =
  c_name :: string
  c_slug :: string
  c_imageUrl :: "string option"

record Category = InsertCategory +
  c_id :: nat

record InsertProduct =
  p_name :: string
  p_slug :: string
  p_description :: string
  p_price :: rat
  p_imageUrl :: string
  p_stock :: int
  p_categoryId :: "nat option"
  p_isOnSale :: bool
  p_salePrice :: "rat option"
  p_isNew :: bool

record Product = InsertProduct +
  p_id :: nat
  p_rating :: rat
  p_reviewCount :: nat

record InsertOrder =
  o_userId :: nat
  o_total :: rat
  o_status :: string
  o_address :: string

record Order = InsertOrder +
  o_id :: nat
  o_createdAt :: nat

record InsertOrderItem =
  oi_orderId :: nat
  oi_productId :: nat
  oi_quantity :: int
  oi_price :: rat

record OrderItem = InsertOrderItem +
  oi_id :: nat

record InsertCartItem =
  ci_userId :: nat
  ci_productId :: nat
  ci_quantity :: int

record CartItem = InsertCartItem +
  ci_id :: nat

section \<open>The in-memory backend \<open>MemStorage\<close>\<close>

record MemStorage =
  users :: "User Map"
  categories :: "Category Map"
  products :: "Product Map"
  orders :: "Order Map"
  orderItems :: "OrderItem Map"
  cartItems :: "CartItem Map"
  userId :: nat
  categoryId :: nat
  productId :: nat
  orderId :: nat
  orderItemId :: nat
  cartItemId :: nat

text \<open>
  The constructor, up to the call of \<open>initSampleData\<close>: empty maps and every counter at 1.
  \<open>initSampleData\<close> is a sequence of \<open>createCategory\<close>, \<open>createProduct\<close> and \<open>createUser\<close>
  calls on this state.
\<close>

definition MemStorage_new :: MemStorage where
  "MemStorage_new =
     \<lparr>users = [], categories = [], products = [], orders = [], orderItems = [],
      cartItems = [], userId = 1, categoryId = 1, productId = 1, orderId = 1,
      orderItemId = 1, cartItemId = 1\<rparr>"

subsection \<open>Users\<close>

definition MemStorage_getUser :: "MemStorage \<Rightarrow> nat \<Rightarrow> User option" where
  "MemStorage_getUser s i = Map_get (users s) i"

definition MemStorage_getUserByUsername :: "MemStorage \<Rightarrow> string \<Rightarrow> User option" where
  "MemStorage_getUserByUsername s n = find (\<lambda>user. u_username user = n) (Map_values (users s))"

definition MemStorage_getUserByEmail :: "MemStorage \<Rightarrow> string \<Rightarrow> User option" where
  "MemStorage_getUserByEmail s e = find (\<lambda>user. u_email user = e) (Map_values (users s))"

definition MemStorage_createUser :: "InsertUser \<Rightarrow> MemStorage \<Rightarrow> User \<times> MemStorage" where
  "MemStorage_createUser user s =
     (let i = userId s;
          newUser = InsertUser.extend user (User.fields i False)
      in (newUser, s\<lparr>userId := i + 1, users := Map_set i newUser (users s)\<rparr>))"

subsection \<open>Categories\<close>

definition MemStorage_getCategories :: "MemStorage \<Rightarrow> Category list" where
  "MemStorage_getCategories s = Map_values (categories s)"

definition MemStorage_getCategoryById :: "MemStorage \<Rightarrow> nat \<Rightarrow> Category option" where
  "MemStorage_getCategoryById s i = Map_get (categories s) i"

definition MemStorage_getCategoryBySlug :: "MemStorage \<Rightarrow> string \<Rightarrow> Category option" where
  "MemStorage_getCategoryBySlug s g =
     find (\<lambda>category. c_slug category = g) (Map_values (categories s))"

definition MemStorage_createCategory ::
  "InsertCategory \<Rightarrow> MemStorage \<Rightarrow> Category \<times> MemStorage" where
  "MemStorage_createCategory category s =
     (let i = categoryId s;
          newCategory = InsertCategory.extend category (Category.fields i)
      in (newCategory, s\<lparr>categoryId := i + 1, categories := Map_set i newCategory (categories s)\<rparr>))"

subsection \<open>Products\<close>

definition MemStorage_getProducts :: "MemStorage \<Rightarrow> Product list" where
  "MemStorage_getProducts s = Map_values (products s)"

definition MemStorage_getProductById :: "MemStorage \<Rightarrow> nat \<Rightarrow> Product option" where
  "MemStorage_getProductById s i = Map_get (products s) i"

definition MemStorage_getProductBySlug :: "MemStorage \<Rightarrow> string \<Rightarrow> Product option" where
  "MemStorage_getProductBySlug s g =
     find (\<lambda>product. p_slug product = g) (Map_values (products s))"

definition MemStorage_getProductsByCategory :: "MemStorage \<Rightarrow> nat \<Rightarrow> Product list" where
  "MemStorage_getProductsByCategory s c =
     filter (\<lambda>product. p_categoryId product = Some c) (Map_values (products s))"

definition MemStorage_getProductsByIds :: "MemStorage \<Rightarrow> nat list \<Rightarrow> Product list" where
  "MemStorage_getProductsByIds s ids =
     filter (\<lambda>product. p_id product \<in> set ids) (Map_values (products s))"

text \<open>
  \<open>rnd\<close> is the value of \<open>Math.floor(Math.random() * 200)\<close>, an input of the model; the
  rating is the constant 4.5.
\<close>

definition MemStorage_createProduct ::
  "InsertProduct \<Rightarrow> nat \<Rightarrow> MemStorage \<Rightarrow> Product \<times> MemStorage" where
  "MemStorage_createProduct product rnd s =
     (let i = productId s;
          newProduct = InsertProduct.extend product (Product.fields i (9 / 2) (rnd + 1))
      in (newProduct, s\<lparr>productId := i + 1, products := Map_set i newProduct (products s)\<rparr>))"

subsection \<open>Orders and order items\<close>

definition MemStorage_getOrders :: "MemStorage \<Rightarrow> nat \<Rightarrow> Order list" where
  "MemStorage_getOrders s u = filter (\<lambda>order. o_userId order = u) (Map_values (orders s))"

definition MemStorage_getOrderById :: "MemStorage \<Rightarrow> nat \<Rightarrow> Order option" where
  "MemStorage_getOrderById s i = Map_get (orders s) i"

text \<open>\<open>date\<close> is the value of \<open>new Date()\<close>, an input of the model.\<close>

definition MemStorage_createOrder ::
  "InsertOrder \<Rightarrow> nat \<Rightarrow> MemStorage \<Rightarrow> Order \<times> MemStorage" where
  "MemStorage_createOrder order date s =
     (let i = orderId s;
          newOrder = InsertOrder.extend order (Order.fields i date)
      in (newOrder, s\<lparr>orderId := i + 1, orders := Map_set i newOrder (orders s)\<rparr>))"

definition MemStorage_getOrderItems :: "MemStorage \<Rightarrow> nat \<Rightarrow> OrderItem list" where
  "MemStorage_getOrderItems s i =
     filter (\<lambda>item. oi_orderId item = i) (Map_values (orderItems s))"

definition MemStorage_createOrderItem ::
  "InsertOrderItem \<Rightarrow> MemStorage \<Rightarrow> OrderItem \<times> MemStorage" where
  "MemStorage_createOrderItem orderItem s =
     (let i = orderItemId s;
          newOrderItem = InsertOrderItem.extend orderItem (OrderItem.fields i)
      in (newOrderItem,
          s\<lparr>orderItemId := i + 1, orderItems := Map_set i newOrderItem (orderItems s)\<rparr>))"

subsection \<open>Cart\<close>

definition MemStorage_getCartItems :: "MemStorage \<Rightarrow> nat \<Rightarrow> CartItem list" where
  "MemStorage_getCartItems s u =
     filter (\<lambda>item. ci_userId item = u) (Map_values (cartItems s))"

definition MemStorage_getCartItem :: "MemStorage \<Rightarrow> nat \<Rightarrow> nat \<Rightarrow> CartItem option" where
  "MemStorage_getCartItem s u p =
     find (\<lambda>item. ci_userId item = u \<and> ci_productId item = p) (Map_values (cartItems s))"

definition MemStorage_createCartItem ::
  "InsertCartItem \<Rightarrow> MemStorage \<Rightarrow> CartItem \<times> MemStorage" where
  "MemStorage_createCartItem cartItem s =
     (let i = cartItemId s;
          newCartItem = InsertCartItem.extend cartItem (CartItem.fields i)
      in (newCartItem,
          s\<lparr>cartItemId := i + 1, cartItems := Map_set i newCartItem (cartItems s)\<rparr>))"

definition MemStorage_updateCartItem ::
  "nat \<Rightarrow> int \<Rightarrow> MemStorage \<Rightarrow> CartItem option \<times> MemStorage" where
  "MemStorage_updateCartItem i quantity s =
     (case Map_get (cartItems s) i of
        None \<Rightarrow> (None, s)
      | Some cartItem \<Rightarrow>
          (let updatedCartItem = cartItem\<lparr>ci_quantity := quantity\<rparr>
           in (Some updatedCartItem, s\<lparr>cartItems := Map_set i updatedCartItem (cartItems s)\<rparr>)))"

definition MemStorage_deleteCartItem :: "nat \<Rightarrow> MemStorage \<Rightarrow> bool \<times> MemStorage" where
  "MemStorage_deleteCartItem i s =
     (let (existed, m) = Map_delete i (cartItems s) in (existed, s\<lparr>cartItems := m\<rparr>))"

text \<open>
  \<open>clearCart\<close> first collects the user's items, then deletes each of them by its \<open>id\<close> field
  and answers \<open>true\<close> whatever it found.
\<close>

definition MemStorage_clearCart :: "nat \<Rightarrow> MemStorage \<Rightarrow> bool \<times> MemStorage" where
  "MemStorage_clearCart u s =
     (let cartItemsToRemove = filter (\<lambda>item. ci_userId item = u) (Map_values (cartItems s))
      in (True,
          s\<lparr>cartItems := foldl (\<lambda>m item. snd (Map_delete (ci_id item) m)) (cartItems s)
                            cartItemsToRemove\<rparr>))"

section \<open>Route handlers over the storage\<close>

text \<open>
  The handlers call the exported \<open>storage\<close>, which is the \<open>MemStorage\<close> instance. A handler
  is a function of the authenticated \<open>req.userId\<close>, the validated body fields and the
  storage; it returns the response and the storage afterwards. A response with an error
  status is \<open>Inl\<close> of the status and message, a success is \<open>Inr\<close> of the payload. No
  \<open>MemStorage\<close> method throws, so the \<open>catch\<close> branch (status 500) is not reached here.
\<close>

datatype http_error = HttpError nat string

text \<open>
  The price expression of the cart and order handlers,
  \<open>product.isOnSale && product.salePrice ? product.salePrice : product.price\<close>:
  a sale price that is \<open>null\<close> or \<open>0\<close> is falsy. (\<open>isOnSale\<close> is a boolean here; a \<open>null\<close>
  there would be falsy like \<open>false\<close>.)
\<close>

definition effectivePrice :: "Product \<Rightarrow> rat" where
  "effectivePrice product =
     (case p_salePrice product of
        None \<Rightarrow> p_price product
      | Some salePrice \<Rightarrow>
          if p_isOnSale product \<and> salePrice \<noteq> 0 then salePrice else p_price product)"

subsection \<open>\<open>POST /cart\<close>, \<open>PUT /cart/:id\<close>, \<open>DELETE /cart/:id\<close>, \<open>DELETE /cart\<close>\<close>

definition post_cart ::
  "nat \<Rightarrow> nat \<Rightarrow> int \<Rightarrow> MemStorage \<Rightarrow> (http_error + nat \<times> CartItem option) \<times> MemStorage" where
  "post_cart reqUserId productId' quantity s =
     (case MemStorage_getProductById s productId' of
        None \<Rightarrow> (Inl (HttpError 404 ''Product not found''), s)
      | Some product \<Rightarrow>
          (case MemStorage_getCartItem s reqUserId productId' of
             Some existingCartItem \<Rightarrow>
               (let (updatedCartItem, s') =
                      MemStorage_updateCartItem (ci_id existingCartItem)
                        (ci_quantity existingCartItem + quantity) s
                in (Inr (200, updatedCartItem), s'))
           | None \<Rightarrow>
               (let (cartItem, s') =
                      MemStorage_createCartItem
                        \<lparr>ci_userId = reqUserId, ci_productId = productId',
                         ci_quantity = quantity\<rparr> s
                in (Inr (201, Some cartItem), s'))))"

definition put_cart ::
  "nat \<Rightarrow> int \<Rightarrow> MemStorage \<Rightarrow> (http_error + CartItem) \<times> MemStorage" where
  "put_cart cartItemId' quantity s =
     (if quantity = 0 \<or> quantity < 1 then (Inl (HttpError 400 ''Invalid quantity''), s)
      else (case MemStorage_updateCartItem cartItemId' quantity s of
              (None, s') \<Rightarrow> (Inl (HttpError 404 ''Cart item not found''), s')
            | (Some updatedCartItem, s') \<Rightarrow> (Inr updatedCartItem, s')))"

definition delete_cart_item ::
  "nat \<Rightarrow> MemStorage \<Rightarrow> (http_error + string) \<times> MemStorage" where
  "delete_cart_item cartItemId' s =
     (let (success, s') = MemStorage_deleteCartItem cartItemId' s
      in if \<not> success then (Inl (HttpError 404 ''Cart item not found''), s')
         else (Inr ''Cart item removed'', s'))"

definition delete_cart :: "nat \<Rightarrow> MemStorage \<Rightarrow> (http_error + string) \<times> MemStorage" where
  "delete_cart reqUserId s =
     (let (_, s') = MemStorage_clearCart reqUserId s in (Inr ''Cart cleared'', s'))"

subsection \<open>\<open>POST /orders\<close>: checkout\<close>

text \<open>The loop over the cart lines; a line whose product is not in the lookup is skipped.\<close>

fun createOrderItems ::
  "Order \<Rightarrow> Product Map \<Rightarrow> CartItem list \<Rightarrow> MemStorage \<Rightarrow> MemStorage" where
  "createOrderItems order productsMap [] s = s"
| "createOrderItems order productsMap (item # items) s =
     (case Map_get productsMap (ci_productId item) of
        None \<Rightarrow> createOrderItems order productsMap items s
      | Some product \<Rightarrow>
          (let price = effectivePrice product;
               (_, s') = MemStorage_createOrderItem
                           \<lparr>oi_orderId = o_id order, oi_productId = ci_productId item,
                            oi_quantity = ci_quantity item, oi_price = price\<rparr> s
           in createOrderItems order productsMap items s'))"

text \<open>
  The handler in the order of its statements: the order is created first, then the cart is
  read and tested for emptiness, then the products are fetched, the order items are
  created and the cart is cleared.
\<close>

definition post_orders ::
  "nat \<Rightarrow> string \<Rightarrow> rat \<Rightarrow> nat \<Rightarrow> MemStorage \<Rightarrow> (http_error + Order) \<times> MemStorage" where
  "post_orders reqUserId address total' date s =
     (let (order, s1) =
            MemStorage_createOrder
              \<lparr>o_userId = reqUserId, o_total = total', o_status = ''pending'',
               o_address = address\<rparr> date s;
          cartItems' = MemStorage_getCartItems s1 reqUserId
      in if length cartItems' = 0 then (Inl (HttpError 400 ''Cart is empty''), s1)
         else
           (let productIds = map ci_productId cartItems';
                products' = MemStorage_getProductsByIds s1 productIds;
                productsMap = new_Map (map (\<lambda>product. (p_id product, product)) products');
                s2 = createOrderItems order productsMap cartItems' s1;
                (_, s3) = MemStorage_clearCart reqUserId s2
            in (Inr order, s3)))"

text \<open>
  The effective price in the words of the specification: the sale price if the product is
  on sale and a sale price is set, otherwise the list price.
\<close>

definition spec_effectivePrice :: "Product \<Rightarrow> rat" where
  "spec_effectivePrice product =
     (case p_salePrice product of
        None \<Rightarrow> p_price product
      | Some salePrice \<Rightarrow> if p_isOnSale product then salePrice else p_price product)"

subsection \<open>Sequences of requests\<close>

datatype request =
    PostCart nat nat int
  | PutCart nat int
  | DeleteCartItemById nat
  | DeleteCart nat
  | PostOrders nat string rat nat

fun handle :: "request \<Rightarrow> MemStorage \<Rightarrow> MemStorage" where
  "handle (PostCart u p q) s = snd (post_cart u p q s)"
| "handle (PutCart i q) s = snd (put_cart i q s)"
| "handle (DeleteCartItemById i) s = snd (delete_cart_item i s)"
| "handle (DeleteCart u) s = snd (delete_cart u s)"
| "handle (PostOrders u a t d) s = snd (post_orders u a t d s)"

definition handle_all :: "request list \<Rightarrow> MemStorage \<Rightarrow> MemStorage" where
  "handle_all reqs s = foldl (\<lambda>s' r. handle r s') s reqs"

text \<open>At most one cart item for each pair of user and product.\<close>

definition cart_unique :: "MemStorage \<Rightarrow> bool" where
  "cart_unique s =
     distinct (map (\<lambda>item. (ci_userId item, ci_productId item)) (Map_values (cartItems s)))"

section \<open>Identifiers issued by the in-memory backend\<close>

datatype collection = Users | Categories | Products | Orders | OrderItems | CartItems

datatype storage_call =
    CreateUser InsertUser
  | CreateCategory InsertCategory
  | CreateProduct InsertProduct nat
  | CreateOrder InsertOrder nat
  | CreateOrderItem InsertOrderItem
  | CreateCartItem InsertCartItem
  | UpdateCartItem nat int
  | DeleteCartItem nat
  | ClearCart nat

text \<open>
  One call of a mutating method of the storage; the result names the collection and the id
  of the record a create call returned.
\<close>

fun MemStorage_call :: "storage_call \<Rightarrow> MemStorage \<Rightarrow> (collection \<times> nat) option \<times> MemStorage" where
  "MemStorage_call (CreateUser x) s =
     (let (r, s') = MemStorage_createUser x s in (Some (Users, u_id r), s'))"
| "MemStorage_call (CreateCategory x) s =
     (let (r, s') = MemStorage_createCategory x s in (Some (Categories, c_id r), s'))"
| "MemStorage_call (CreateProduct x rnd) s =
     (let (r, s') = MemStorage_createProduct x rnd s in (Some (Products, p_id r), s'))"
| "MemStorage_call (CreateOrder x date) s =
     (let (r, s') = MemStorage_createOrder x date s in (Some (Orders, o_id r), s'))"
| "MemStorage_call (CreateOrderItem x) s =
     (let (r, s') = MemStorage_createOrderItem x s in (Some (OrderItems, oi_id r), s'))"
| "MemStorage_call (CreateCartItem x) s =
     (let (r, s') = MemStorage_createCartItem x s in (Some (CartItems, ci_id r), s'))"
| "MemStorage_call (UpdateCartItem i q) s = (None, snd (MemStorage_updateCartItem i q s))"
| "MemStorage_call (DeleteCartItem i) s = (None, snd (MemStorage_deleteCartItem i s))"
| "MemStorage_call (ClearCart u) s = (None, snd (MemStorage_clearCart u s))"

fun MemStorage_calls ::
  "storage_call list \<Rightarrow> MemStorage \<Rightarrow> (collection \<times> nat) list \<times> MemStorage" where
  "MemStorage_calls [] s = ([], s)"
| "MemStorage_calls (c # cs) s =
     (let (i, s') = MemStorage_call c s;
          (is, s'') = MemStorage_calls cs s'
      in ((case i of None \<Rightarrow> is | Some x \<Rightarrow> x # is), s''))"

definition issued_ids :: "collection \<Rightarrow> storage_call list \<Rightarrow> MemStorage \<Rightarrow> nat list" where
  "issued_ids c cs s = map snd (filter (\<lambda>e. fst e = c) (fst (MemStorage_calls cs s)))"

fun creates :: "collection \<Rightarrow> storage_call \<Rightarrow> bool" where
  "creates c (CreateUser x) = (c = Users)"
| "creates c (CreateCategory x) = (c = Categories)"
| "creates c (CreateProduct x rnd) = (c = Products)"
| "creates c (CreateOrder x date) = (c = Orders)"
| "creates c (CreateOrderItem x) = (c = OrderItems)"
| "creates c (CreateCartItem x) = (c = CartItems)"
| "creates c (UpdateCartItem i q) = False"
| "creates c (DeleteCartItem i) = False"
| "creates c (ClearCart u) = False"

fun counter :: "collection \<Rightarrow> MemStorage \<Rightarrow> nat" where
  "counter Users s = userId s"
| "counter Categories s = categoryId s"
| "counter Products s = productId s"
| "counter Orders s = orderId s"
| "counter OrderItems s = orderItemId s"
| "counter CartItems s = cartItemId s"

section \<open>Well-formed in-memory states\<close>

text \<open>
  What the constructor establishes and every method keeps: in each map the keys are
  distinct, a record is stored under its own id, and every key is below the counter of its
  collection.
\<close>

definition Map_wf :: "('a \<Rightarrow> nat) \<Rightarrow> nat \<Rightarrow> 'a Map \<Rightarrow> bool" where
  "Map_wf idf n m =
     (distinct (map fst m) \<and> list_all (\<lambda>e. idf (snd e) = fst e \<and> fst e < n) m)"

definition MemStorage_wf :: "MemStorage \<Rightarrow> bool" where
  "MemStorage_wf s =
     (Map_wf u_id (userId s) (users s) \<and> Map_wf c_id (categoryId s) (categories s) \<and>
      Map_wf p_id (productId s) (products s) \<and> Map_wf o_id (orderId s) (orders s) \<and>
      Map_wf oi_id (orderItemId s) (orderItems s) \<and>
      Map_wf ci_id (cartItemId s) (cartItems s))"

section \<open>Auxiliary notions for stating what checkout creates\<close>

text \<open>
  The order item that the loop of \<open>POST /orders\<close> creates for a cart line whose product
  is in the lookup, paired with the id it receives.
\<close>

definition line_item :: "Order \<Rightarrow> Product Map \<Rightarrow> nat \<times> CartItem \<Rightarrow> nat \<times> OrderItem" where
  "line_item order pm e =
     (fst e, InsertOrderItem.extend
        \<lparr>oi_orderId = o_id order, oi_productId = ci_productId (snd e),
         oi_quantity = ci_quantity (snd e),
         oi_price = effectivePrice (the (Map_get pm (ci_productId (snd e))))\<rparr>
        (OrderItem.fields (fst e)))"

section \<open>The relational backend \<open>PgStorage\<close>\<close>

text \<open>
  \<open>PgStorage\<close> issues drizzle queries against a database handle. The database is not part
  of the repository; it is modelled as one table per entity, a table being its rows in
  insertion order and the next value of the serial sequence of its \<open>id\<close> column (the
  generator of the relational backend is the native serial column). The three query shapes
  the adapter uses: \<open>insert(t).values(v).returning()\<close> stores \<open>v\<close> with the next serial
  value as id and returns the stored row; \<open>select().from(t).where(c).limit(1)\<close> followed by
  \<open>result[0]\<close> is the first row that satisfies \<open>c\<close> or \<open>undefined\<close>;
  \<open>delete(t).where(c)\<close> removes the rows that satisfy \<open>c\<close>.
\<close>

record 'a pg_table =
  pg_rows :: "'a list"
  pg_nextval :: nat

definition pg_insert_returning :: "(nat \<Rightarrow> 'a) \<Rightarrow> 'a pg_table \<Rightarrow> 'a \<times> 'a pg_table" where
  "pg_insert_returning mk t =
     (let row = mk (pg_nextval t)
      in (row, \<lparr>pg_rows = pg_rows t @ [row], pg_nextval = pg_nextval t + 1\<rparr>))"

definition pg_select_limit1 :: "('a \<Rightarrow> bool) \<Rightarrow> 'a pg_table \<Rightarrow> 'a option" where
  "pg_select_limit1 c t = find c (pg_rows t)"

definition pg_select :: "('a \<Rightarrow> bool) \<Rightarrow> 'a pg_table \<Rightarrow> 'a list" where
  "pg_select c t = filter c (pg_rows t)"

definition pg_delete :: "('a \<Rightarrow> bool) \<Rightarrow> 'a pg_table \<Rightarrow> 'a pg_table" where
  "pg_delete c t = t\<lparr>pg_rows := filter (\<lambda>row. \<not> c row) (pg_rows t)\<rparr>"

record PgStorage =
  pg_users :: "User pg_table"
  pg_categories :: "Category pg_table"
  pg_products :: "Product pg_table"
  pg_orders :: "Order pg_table"
  pg_orderItems :: "OrderItem pg_table"
  pg_cartItems :: "CartItem pg_table"

definition pg_table_empty :: "'a pg_table" where
  "pg_table_empty = \<lparr>pg_rows = [], pg_nextval = 1\<rparr>"

definition PgStorage_empty :: PgStorage where
  "PgStorage_empty =
     \<lparr>pg_users = pg_table_empty, pg_categories = pg_table_empty,
      pg_products = pg_table_empty, pg_orders = pg_table_empty,
      pg_orderItems = pg_table_empty, pg_cartItems = pg_table_empty\<rparr>"

definition PgStorage_getUser :: "PgStorage \<Rightarrow> nat \<Rightarrow> User option" where
  "PgStorage_getUser db i = pg_select_limit1 (\<lambda>row. u_id row = i) (pg_users db)"

definition PgStorage_createUser :: "InsertUser \<Rightarrow> PgStorage \<Rightarrow> User \<times> PgStorage" where
  "PgStorage_createUser user db =
     (let (row, t) = pg_insert_returning
                       (\<lambda>i. InsertUser.extend user (User.fields i False)) (pg_users db)
      in (row, db\<lparr>pg_users := t\<rparr>))"

definition PgStorage_getCategoryById :: "PgStorage \<Rightarrow> nat \<Rightarrow> Category option" where
  "PgStorage_getCategoryById db i = pg_select_limit1 (\<lambda>row. c_id row = i) (pg_categories db)"

definition PgStorage_createCategory ::
  "InsertCategory \<Rightarrow> PgStorage \<Rightarrow> Category \<times> PgStorage" where
  "PgStorage_createCategory category db =
     (let (row, t) = pg_insert_returning
                       (\<lambda>i. InsertCategory.extend category (Category.fields i))
                       (pg_categories db)
      in (row, db\<lparr>pg_categories := t\<rparr>))"

definition PgStorage_getProductById :: "PgStorage \<Rightarrow> nat \<Rightarrow> Product option" where
  "PgStorage_getProductById db i = pg_select_limit1 (\<lambda>row. p_id row = i) (pg_products db)"

definition PgStorage_createProduct ::
  "InsertProduct \<Rightarrow> nat \<Rightarrow> PgStorage \<Rightarrow> Product \<times> PgStorage" where
  "PgStorage_createProduct product rnd db =
     (let (row, t) = pg_insert_returning
                       (\<lambda>i. InsertProduct.extend product (Product.fields i (9 / 2) (rnd + 1)))
                       (pg_products db)
      in (row, db\<lparr>pg_products := t\<rparr>))"

definition PgStorage_getOrderById :: "PgStorage \<Rightarrow> nat \<Rightarrow> Order option" where
  "PgStorage_getOrderById db i = pg_select_limit1 (\<lambda>row. o_id row = i) (pg_orders db)"

text \<open>The creation time of an order row is the column default, the input \<open>date\<close>.\<close>

definition PgStorage_createOrder ::
  "InsertOrder \<Rightarrow> nat \<Rightarrow> PgStorage \<Rightarrow> Order \<times> PgStorage" where
  "PgStorage_createOrder order date db =
     (let (row, t) = pg_insert_returning
                       (\<lambda>i. InsertOrder.extend order (Order.fields i date)) (pg_orders db)
      in (row, db\<lparr>pg_orders := t\<rparr>))"

definition PgStorage_getCartItems :: "PgStorage \<Rightarrow> nat \<Rightarrow> CartItem list" where
  "PgStorage_getCartItems db u = pg_select (\<lambda>row. ci_userId row = u) (pg_cartItems db)"

definition PgStorage_createCartItem ::
  "InsertCartItem \<Rightarrow> PgStorage \<Rightarrow> CartItem \<times> PgStorage" where
  "PgStorage_createCartItem cartItem db =
     (let (row, t) = pg_insert_returning
                       (\<lambda>i. InsertCartItem.extend cartItem (CartItem.fields i))
                       (pg_cartItems db)
      in (row, db\<lparr>pg_cartItems := t\<rparr>))"

definition PgStorage_deleteCartItem :: "nat \<Rightarrow> PgStorage \<Rightarrow> bool \<times> PgStorage" where
  "PgStorage_deleteCartItem i db =
     (True, db\<lparr>pg_cartItems := pg_delete (\<lambda>row. ci_id row = i) (pg_cartItems db)\<rparr>)"

definition PgStorage_clearCart :: "nat \<Rightarrow> PgStorage \<Rightarrow> bool \<times> PgStorage" where
  "PgStorage_clearCart u db =
     (True, db\<lparr>pg_cartItems := pg_delete (\<lambda>row. ci_userId row = u) (pg_cartItems db)\<rparr>)"

text \<open>Every id in a table came from its sequence: it is below the next serial value.\<close>

definition pg_table_wf :: "('a \<Rightarrow> nat) \<Rightarrow> 'a pg_table \<Rightarrow> bool" where
  "pg_table_wf idf t = list_all (\<lambda>row. idf row < pg_nextval t) (pg_rows t)"

definition PgStorage_wf :: "PgStorage \<Rightarrow> bool" where
  "PgStorage_wf db =
     (pg_table_wf u_id (pg_users db) \<and> pg_table_wf c_id (pg_categories db) \<and>
      pg_table_wf p_id (pg_products db) \<and> pg_table_wf o_id (pg_orders db) \<and>
      pg_table_wf oi_id (pg_orderItems db) \<and> pg_table_wf ci_id (pg_cartItems db))"

section \<open>The document-store backend \<open>MongoDbStorage\<close>\<close>

text \<open>
  \<open>MongoDbStorage\<close> calls the MongoDB driver on the collections of the database
  \<open>ecommerce\<close>. The database is modelled as one list of documents per collection, in
  insertion order, and the \<open>counters\<close> collection as a map from the collection name to
  the \<open>sequence_value\<close> of its counter document. \<open>findOne(q)\<close> is the first document that
  matches or \<open>null\<close>; \<open>insertOne(d)\<close> appends; \<open>deleteOne(q)\<close> removes the first match and
  \<open>deleteMany(q)\<close> every match, both reporting \<open>deletedCount\<close>. The \<open>_id\<close> that the driver
  adds to an inserted document is not modelled: no code reads it.
\<close>

definition findOne :: "('a \<Rightarrow> bool) \<Rightarrow> 'a list \<Rightarrow> 'a option" where
  "findOne q docs = find q docs"

definition insertOne :: "'a \<Rightarrow> 'a list \<Rightarrow> 'a list" where
  "insertOne d docs = docs @ [d]"

fun deleteOne :: "('a \<Rightarrow> bool) \<Rightarrow> 'a list \<Rightarrow> nat \<times> 'a list" where
  "deleteOne q [] = (0, [])"
| "deleteOne q (d # docs) =
     (if q d then (1, docs) else (let (n, docs') = deleteOne q docs in (n, d # docs')))"

definition deleteMany :: "('a \<Rightarrow> bool) \<Rightarrow> 'a list \<Rightarrow> nat \<times> 'a list" where
  "deleteMany q docs = (length (filter q docs), filter (\<lambda>d. \<not> q d) docs)"

record MongoDb =
  mg_users :: "User list"
  mg_categories :: "Category list"
  mg_products :: "Product list"
  mg_orders :: "Order list"
  mg_orderItems :: "OrderItem list"
  mg_cartItems :: "CartItem list"
  mg_counters :: "string \<Rightarrow> nat option"

definition MongoDb_empty :: MongoDb where
  "MongoDb_empty =
     \<lparr>mg_users = [], mg_categories = [], mg_products = [], mg_orders = [],
      mg_orderItems = [], mg_cartItems = [], mg_counters = (\<lambda>name. None)\<rparr>"

text \<open>
  \<open>getNextId\<close>: one \<open>findOneAndUpdate\<close> on the counter document of the collection with
  \<open>$inc: { sequence_value: 1 }\<close>, \<open>upsert: true\<close> and \<open>returnDocument: 'after'\<close>. A missing
  counter document is created with the value 1; the value after the increment is returned.
\<close>

definition MongoDbStorage_getNextId :: "string \<Rightarrow> MongoDb \<Rightarrow> nat \<times> MongoDb" where
  "MongoDbStorage_getNextId collectionName db =
     (let sequence_value =
            (case mg_counters db collectionName of None \<Rightarrow> 1 | Some n \<Rightarrow> n + 1)
      in (sequence_value,
          db\<lparr>mg_counters := (mg_counters db)(collectionName := Some sequence_value)\<rparr>))"

definition MongoDbStorage_getUser :: "MongoDb \<Rightarrow> nat \<Rightarrow> User option" where
  "MongoDbStorage_getUser db i = findOne (\<lambda>d. u_id d = i) (mg_users db)"

definition MongoDbStorage_createUser :: "InsertUser \<Rightarrow> MongoDb \<Rightarrow> User \<times> MongoDb" where
  "MongoDbStorage_createUser user db =
     (let (i, db') = MongoDbStorage_getNextId ''users'' db;
          newUser = InsertUser.extend user (User.fields i False)
      in (newUser, db'\<lparr>mg_users := insertOne newUser (mg_users db')\<rparr>))"

definition MongoDbStorage_getCategoryById :: "MongoDb \<Rightarrow> nat \<Rightarrow> Category option" where
  "MongoDbStorage_getCategoryById db i = findOne (\<lambda>d. c_id d = i) (mg_categories db)"

definition MongoDbStorage_createCategory ::
  "InsertCategory \<Rightarrow> MongoDb \<Rightarrow> Category \<times> MongoDb" where
  "MongoDbStorage_createCategory category db =
     (let (i, db') = MongoDbStorage_getNextId ''categories'' db;
          newCategory = InsertCategory.extend category (Category.fields i)
      in (newCategory, db'\<lparr>mg_categories := insertOne newCategory (mg_categories db')\<rparr>))"

definition MongoDbStorage_getProductById :: "MongoDb \<Rightarrow> nat \<Rightarrow> Product option" where
  "MongoDbStorage_getProductById db i = findOne (\<lambda>d. p_id d = i) (mg_products db)"

definition MongoDbStorage_createProduct ::
  "InsertProduct \<Rightarrow> nat \<Rightarrow> MongoDb \<Rightarrow> Product \<times> MongoDb" where
  "MongoDbStorage_createProduct product rnd db =
     (let (i, db') = MongoDbStorage_getNextId ''products'' db;
          newProduct = InsertProduct.extend product (Product.fields i (9 / 2) (rnd + 1))
      in (newProduct, db'\<lparr>mg_products := insertOne newProduct (mg_products db')\<rparr>))"

definition MongoDbStorage_getOrderById :: "MongoDb \<Rightarrow> nat \<Rightarrow> Order option" where
  "MongoDbStorage_getOrderById db i = findOne (\<lambda>d. o_id d = i) (mg_orders db)"

definition MongoDbStorage_createOrder ::
  "InsertOrder \<Rightarrow> nat \<Rightarrow> MongoDb \<Rightarrow> Order \<times> MongoDb" where
  "MongoDbStorage_createOrder order date db =
     (let (i, db') = MongoDbStorage_getNextId ''orders'' db;
          newOrder = InsertOrder.extend order (Order.fields i date)
      in (newOrder, db'\<lparr>mg_orders := insertOne newOrder (mg_orders db')\<rparr>))"

definition MongoDbStorage_getCartItems :: "MongoDb \<Rightarrow> nat \<Rightarrow> CartItem list" where
  "MongoDbStorage_getCartItems db u = filter (\<lambda>d. ci_userId d = u) (mg_cartItems db)"

definition MongoDbStorage_createCartItem ::
  "InsertCartItem \<Rightarrow> MongoDb \<Rightarrow> CartItem \<times> MongoDb" where
  "MongoDbStorage_createCartItem cartItem db =
     (let (i, db') = MongoDbStorage_getNextId ''cartItems'' db;
          newCartItem = InsertCartItem.extend cartItem (CartItem.fields i)
      in (newCartItem, db'\<lparr>mg_cartItems := insertOne newCartItem (mg_cartItems db')\<rparr>))"

definition MongoDbStorage_deleteCartItem :: "nat \<Rightarrow> MongoDb \<Rightarrow> bool \<times> MongoDb" where
  "MongoDbStorage_deleteCartItem i db =
     (let (deletedCount, docs) = deleteOne (\<lambda>d. ci_id d = i) (mg_cartItems db)
      in (deletedCount > 0, db\<lparr>mg_cartItems := docs\<rparr>))"

definition MongoDbStorage_clearCart :: "nat \<Rightarrow> MongoDb \<Rightarrow> bool \<times> MongoDb" where
  "MongoDbStorage_clearCart u db =
     (let (deletedCount, docs) = deleteMany (\<lambda>d. ci_userId d = u) (mg_cartItems db)
      in (deletedCount > 0, db\<lparr>mg_cartItems := docs\<rparr>))"

text \<open>Every id in a collection came from its counter: it is at most the counter's value.\<close>

definition mg_collection_wf :: "('a \<Rightarrow> nat) \<Rightarrow> nat option \<Rightarrow> 'a list \<Rightarrow> bool" where
  "mg_collection_wf idf cnt docs =
     list_all (\<lambda>d. idf d \<le> (case cnt of None \<Rightarrow> 0 | Some n \<Rightarrow> n)) docs"

definition MongoDb_wf :: "MongoDb \<Rightarrow> bool" where
  "MongoDb_wf db =
     (mg_collection_wf u_id (mg_counters db ''users'') (mg_users db) \<and>
      mg_collection_wf c_id (mg_counters db ''categories'') (mg_categories db) \<and>
      mg_collection_wf p_id (mg_counters db ''products'') (mg_products db) \<and>
      mg_collection_wf o_id (mg_counters db ''orders'') (mg_orders db) \<and>
      mg_collection_wf oi_id (mg_counters db ''orderItems'') (mg_orderItems db) \<and>
      mg_collection_wf ci_id (mg_counters db ''cartItems'') (mg_cartItems db))"

section \<open>Example payloads and states\<close>

text \<open>
  Product A costs 10.00 and is on sale at 8.00, product B costs 20.00 and is not on sale,
  product Z costs 10.00 and is on sale with the sale price 0.
\<close>

definition product_A :: InsertProduct where
  "product_A =
     \<lparr>p_name = ''A'', p_slug = ''a'', p_description = ''first'', p_price = 10,
      p_imageUrl = ''a.png'', p_stock = 5, p_categoryId = None, p_isOnSale = True,
      p_salePrice = Some 8, p_isNew = False\<rparr>"

definition product_B :: InsertProduct where
  "product_B =
     \<lparr>p_name = ''B'', p_slug = ''b'', p_description = ''second'', p_price = 20,
      p_imageUrl = ''b.png'', p_stock = 5, p_categoryId = None, p_isOnSale = False,
      p_salePrice = None, p_isNew = False\<rparr>"

definition product_Z :: InsertProduct where
  "product_Z =
     \<lparr>p_name = ''Z'', p_slug = ''z'', p_description = ''free on sale'', p_price = 10,
      p_imageUrl = ''z.png'', p_stock = 5, p_categoryId = None, p_isOnSale = True,
      p_salePrice = Some 0, p_isNew = False\<rparr>"

definition user_ann :: InsertUser where
  "user_ann =
     \<lparr>u_username = ''ann'', u_password = ''hash'', u_email = ''ann@example.org'',
      u_fullName = None, u_address = None\<rparr>"

definition category_books :: InsertCategory where
  "category_books = \<lparr>c_name = ''Books'', c_slug = ''books'', c_imageUrl = None\<rparr>"

definition order_one :: InsertOrder where
  "order_one = \<lparr>o_userId = 1, o_total = 36, o_status = ''pending'', o_address = ''Main St''\<rparr>"

text \<open>Products A and B are in the catalogue; user 1 then adds 2 of A and 1 of B.\<close>

definition shop_AB :: MemStorage where
  "shop_AB =
     snd (MemStorage_createProduct product_B 6
            (snd (MemStorage_createProduct product_A 3 MemStorage_new)))"

definition cart_AB :: MemStorage where
  "cart_AB = snd (post_cart 1 2 1 (snd (post_cart 1 1 2 shop_AB)))"

text \<open>
  As \<open>cart_AB\<close>, and the cart of user 1 also holds a line for product 7, which does not
  exist (the storage method is called directly), and user 2 has a line for product B.
\<close>

definition cart_missing :: MemStorage where
  "cart_missing =
     snd (MemStorage_createCartItem \<lparr>ci_userId = 2, ci_productId = 2, ci_quantity = 4\<rparr>
       (snd (MemStorage_createCartItem \<lparr>ci_userId = 1, ci_productId = 7, ci_quantity = 1\<rparr>
          cart_AB)))"

text \<open>Product Z is the only product and user 1 has one unit of it in the cart.\<close>

definition cart_Z :: MemStorage where
  "cart_Z =
     snd (post_cart 1 1 1 (snd (MemStorage_createProduct product_Z 0 MemStorage_new)))"

text \<open>
  The round trip of the specification: a create operation followed by get-by-id on the id
  of the returned record yields that record.
\<close>

definition create_then_get ::
  "('s \<Rightarrow> 'r \<times> 's) \<Rightarrow> ('s \<Rightarrow> nat \<Rightarrow> 'r option) \<Rightarrow> ('r \<Rightarrow> nat) \<Rightarrow> 's \<Rightarrow> bool" where
  "create_then_get create getById idf st =
     (getById (snd (create st)) (idf (fst (create st))) = Some (fst (create st)))"

text \<open>
  A relational and a document store in which users 1 and 2 have one cart item each.
\<close>

definition pg_carts :: PgStorage where
  "pg_carts =
     snd (PgStorage_createCartItem \<lparr>ci_userId = 2, ci_productId = 2, ci_quantity = 4\<rparr>
       (snd (PgStorage_createCartItem \<lparr>ci_userId = 1, ci_productId = 1, ci_quantity = 2\<rparr>
          PgStorage_empty)))"

definition mg_carts :: MongoDb where
  "mg_carts =
     snd (MongoDbStorage_createCartItem \<lparr>ci_userId = 2, ci_productId = 2, ci_quantity = 4\<rparr>
       (snd (MongoDbStorage_createCartItem \<lparr>ci_userId = 1, ci_productId = 1, ci_quantity = 2\<rparr>
          MongoDb_empty)))"

section \<open>Concurrent callers of \<open>getNextId\<close>\<close>

text \<open>
  \<open>getNextId\<close> performs a single store operation, the atomic increment-and-fetch
  \<open>findOneAndUpdate\<close> on the counter document. A run of concurrent callers is therefore some
  order in which their operations reach the store: a schedule, the list of the collection
  names of the calls in that order. Running a schedule gives, call by call, the collection
  and the value returned to that caller.
\<close>

fun getNextId_schedule :: "string list \<Rightarrow> MongoDb \<Rightarrow> (string \<times> nat) list \<times> MongoDb" where
  "getNextId_schedule [] db = ([], db)"
| "getNextId_schedule (c # cs) db =
     (let (i, db') = MongoDbStorage_getNextId c db;
          (is, db'') = getNextId_schedule cs db'
      in ((c, i) # is, db''))"

text \<open>The values returned to the callers for collection \<open>c\<close>, in schedule order.\<close>

definition returned_ids :: "string \<Rightarrow> string list \<Rightarrow> MongoDb \<Rightarrow> nat list" where
  "returned_ids c schedule db =
     map snd (filter (\<lambda>e. fst e = c) (fst (getNextId_schedule schedule db)))"

text \<open>The value of the counter document of a collection, 0 when there is none yet.\<close>

definition sequence_value :: "string \<Rightarrow> MongoDb \<Rightarrow> nat" where
  "sequence_value c db = (case mg_counters db c of None \<Rightarrow> 0 | Some n \<Rightarrow> n)"

section \<open>Properties of the map model\<close>

lemma Map_get_set: "Map_get (Map_set k v m) k' = (if k' = k then Some v else Map_get m k')"
  by (induction m) (auto simp: Map_get_def)

lemma Map_set_fresh: "k \<notin> set (map fst m) \<Longrightarrow> Map_set k v m = m @ [(k, v)]"
  by (induction m) auto

lemma Map_wf_fresh: "Map_wf idf n m \<Longrightarrow> n \<notin> set (map fst m)"
  by (auto simp: Map_wf_def list_all_iff)

lemma Map_wf_append:
  "Map_wf idf n m \<Longrightarrow> idf v = n \<Longrightarrow> Map_wf idf (Suc n) (m @ [(n, v)])"
  by (auto simp: Map_wf_def list_all_iff less_Suc_eq)

lemma Map_wf_set_new:
  "Map_wf idf n m \<Longrightarrow> idf v = n \<Longrightarrow> Map_wf idf (Suc n) (Map_set n v m)"
  using Map_wf_fresh[of idf n m] by (simp add: Map_set_fresh Map_wf_append)

lemma Map_wf_filter: "Map_wf idf n m \<Longrightarrow> Map_wf idf n (filter P m)"
  by (auto simp: Map_wf_def list_all_iff distinct_map_filter)

lemma Map_wf_mono: "Map_wf idf n m \<Longrightarrow> n \<le> n' \<Longrightarrow> Map_wf idf n' m"
  by (auto simp: Map_wf_def list_all_iff)

lemma Map_set_keys: "Map_get m k = Some v' \<Longrightarrow> map fst (Map_set k v m) = map fst m"
  by (induction m) (auto simp: Map_get_def split: if_splits)

lemma Map_set_present:
  "Map_get m k = Some v' \<Longrightarrow> set (Map_set k v m) \<subseteq> insert (k, v) (set m)"
  by (induction m) (auto simp: Map_get_def split: if_splits)

lemma Map_wf_set_same:
  "Map_wf idf n m \<Longrightarrow> Map_get m k = Some v' \<Longrightarrow> idf v = k \<Longrightarrow> Map_wf idf n (Map_set k v m)"
proof -
  assume wf: "Map_wf idf n m" and g: "Map_get m k = Some v'" and i: "idf v = k"
  have k: "(k, v') \<in> set m" using g by (simp add: Map_get_def map_of_SomeD)
  have "\<forall>e \<in> set (Map_set k v m). idf (snd e) = fst e \<and> fst e < n"
    using Map_set_present[OF g, of v] wf k i by (fastforce simp: Map_wf_def list_all_iff)
  then show ?thesis
    using wf Map_set_keys[OF g, of v] by (simp add: Map_wf_def list_all_iff)
qed

lemma Map_wf_get_id: "Map_wf idf n m \<Longrightarrow> Map_get m k = Some v \<Longrightarrow> idf v = k"
  by (auto simp: Map_wf_def list_all_iff Map_get_def dest!: map_of_SomeD)

section \<open>What checkout does on a non-empty cart\<close>

lemma extend_OrderItem [simp]:
  "oi_id (InsertOrderItem.extend x (OrderItem.fields i)) = i"
  "oi_orderId (InsertOrderItem.extend x (OrderItem.fields i)) = oi_orderId x"
  "oi_productId (InsertOrderItem.extend x (OrderItem.fields i)) = oi_productId x"
  "oi_quantity (InsertOrderItem.extend x (OrderItem.fields i)) = oi_quantity x"
  "oi_price (InsertOrderItem.extend x (OrderItem.fields i)) = oi_price x"
  by (simp_all add: InsertOrderItem.defs OrderItem.defs)

lemma createOrderItems_result:
  "Map_wf oi_id (orderItemId s) (orderItems s) \<Longrightarrow>
   createOrderItems order pm items s =
     s\<lparr>orderItemId := orderItemId s +
          length (filter (\<lambda>c. Map_get pm (ci_productId c) \<noteq> None) items),
       orderItems := orderItems s @
          map (line_item order pm)
            (enumerate (orderItemId s)
               (filter (\<lambda>c. Map_get pm (ci_productId c) \<noteq> None) items))\<rparr>"
proof (induction items arbitrary: s)
  case Nil
  then show ?case by simp
next
  case (Cons item items)
  show ?case
  proof (cases "Map_get pm (ci_productId item)")
    case None
    then show ?thesis using Cons by simp
  next
    case (Some product)
    let ?new = "InsertOrderItem.extend
        \<lparr>oi_orderId = o_id order, oi_productId = ci_productId item,
         oi_quantity = ci_quantity item, oi_price = effectivePrice product\<rparr>
        (OrderItem.fields (orderItemId s))"
    let ?s' = "s\<lparr>orderItemId := orderItemId s + 1,
                 orderItems := Map_set (orderItemId s) ?new (orderItems s)\<rparr>"
    have set: "Map_set (orderItemId s) ?new (orderItems s) = orderItems s @ [(orderItemId s, ?new)]"
      using Map_wf_fresh[OF Cons.prems] by (simp add: Map_set_fresh)
    have wf': "Map_wf oi_id (orderItemId ?s') (orderItems ?s')"
      using Cons.prems by (simp add: Map_wf_set_new)
    have step: "createOrderItems order pm (item # items) s = createOrderItems order pm items ?s'"
      using Some by (simp add: MemStorage_createOrderItem_def Let_def)
    show ?thesis
      unfolding step Cons.IH[OF wf']
      using Some by (simp add: set line_item_def)
  qed
qed

lemma foldl_Map_set_get:
  "Map_get (foldl (\<lambda>m e. Map_set (fst e) (snd e) m) m0 es) k =
     (case map_of (rev es) k of None \<Rightarrow> Map_get m0 k | Some v \<Rightarrow> Some v)"
proof (induction es arbitrary: m0)
  case Nil
  then show ?case by simp
next
  case (Cons e es)
  show ?case
    by (cases e) (simp add: Cons.IH Map_get_set map_add_def split: option.splits)
qed

lemma map_of_rev_distinct: "distinct (map fst xs) \<Longrightarrow> map_of (rev xs) = map_of xs"
  by (subst map_of_inject_set) (simp_all add: rev_map[symmetric] del: rev_map)

lemma map_of_filter_key:
  "map_of (filter (\<lambda>e. P (fst e)) xs) k = (if P k then map_of xs k else None)"
  by (induction xs) auto

lemma Map_wf_entries:
  "Map_wf idf n m \<Longrightarrow>
   map (\<lambda>p. (idf p, p)) (filter (\<lambda>p. P (idf p)) (Map_values m)) = filter (\<lambda>e. P (fst e)) m"
  unfolding Map_wf_def Map_values_def list_all_iff
  by (induction m) auto

lemma productsMap_get:
  assumes "Map_wf p_id n m"
  shows "Map_get (new_Map (map (\<lambda>product. (p_id product, product))
            (filter (\<lambda>product. p_id product \<in> set ids) (Map_values m)))) k
         = (if k \<in> set ids then Map_get m k else None)"
proof -
  have d: "distinct (map fst (filter (\<lambda>e. fst e \<in> set ids) m))"
    using assms by (simp add: Map_wf_def distinct_map_filter)
  show ?thesis
    unfolding new_Map_def foldl_Map_set_get Map_wf_entries[OF assms, of "\<lambda>i. i \<in> set ids"]
      map_of_rev_distinct[OF d]
    by (simp add: Map_get_def map_of_filter_key[of "\<lambda>i. i \<in> set ids"] split: option.splits)
qed

lemma foldl_Map_delete:
  "foldl (\<lambda>m item. snd (Map_delete (f item) m)) m items =
     filter (\<lambda>e. fst e \<notin> set (map f items)) m"
proof (induction items arbitrary: m)
  case Nil
  then show ?case by simp
next
  case (Cons a items)
  have "foldl (\<lambda>m item. snd (Map_delete (f item) m)) m (a # items) =
        filter (\<lambda>e. fst e \<notin> set (map f items)) (snd (Map_delete (f a) m))"
    by (simp add: Cons.IH)
  also have "\<dots> = filter (\<lambda>e. fst e \<notin> set (map f (a # items))) m"
    by (simp add: Map_delete_def)
  finally show ?case .
qed

lemma clearCart_filter:
  assumes "Map_wf ci_id n m"
  shows "foldl (\<lambda>m' item. snd (Map_delete (ci_id item) m')) m
           (filter (\<lambda>item. ci_userId item = u) (Map_values m))
         = filter (\<lambda>e. ci_userId (snd e) \<noteq> u) m"
proof -
  have "\<And>e. e \<in> set m \<Longrightarrow>
      (fst e \<notin> set (map ci_id (filter (\<lambda>item. ci_userId item = u) (Map_values m))))
        = (ci_userId (snd e) \<noteq> u)"
  proof -
    fix e assume e: "e \<in> set m"
    have key: "\<And>e'. e' \<in> set m \<Longrightarrow> ci_id (snd e') = fst e'"
      using assms by (auto simp: Map_wf_def list_all_iff)
    have inj: "\<And>e'. e' \<in> set m \<Longrightarrow> fst e' = fst e \<Longrightarrow> e' = e"
    proof -
      fix e' assume a: "e' \<in> set m" "fst e' = fst e"
      have d: "distinct (map fst m)" using assms by (simp add: Map_wf_def)
      have "e' = (fst e, snd e')" using a(2) by (simp add: prod_eq_iff)
      then have "(fst e, snd e') \<in> set m" using a(1) by simp
      moreover have "(fst e, snd e) \<in> set m" using e by simp
      ultimately have "snd e' = snd e" by (rule eq_key_imp_eq_value[OF d])
      then show "e' = e" using a(2) by (simp add: prod_eq_iff)
    qed
    show "(fst e \<notin> set (map ci_id (filter (\<lambda>item. ci_userId item = u) (Map_values m))))
        = (ci_userId (snd e) \<noteq> u)"
    proof (cases "ci_userId (snd e) = u")
      case True
      then have "snd e \<in> set (filter (\<lambda>item. ci_userId item = u) (Map_values m))"
        using e by (auto simp: Map_values_def)
      then have "ci_id (snd e) \<in> set (map ci_id (filter (\<lambda>item. ci_userId item = u) (Map_values m)))"
        unfolding set_map by (rule imageI)
      then show ?thesis using True key[OF e] by simp
    next
      case False
      have "fst e \<notin> set (map ci_id (filter (\<lambda>item. ci_userId item = u) (Map_values m)))"
      proof
        assume "fst e \<in> set (map ci_id (filter (\<lambda>item. ci_userId item = u) (Map_values m)))"
        then obtain e' where e': "e' \<in> set m" "ci_userId (snd e') = u" "ci_id (snd e') = fst e"
          by (auto simp: Map_values_def)
        then have "e' = e" using inj[OF e'(1)] key[OF e'(1)] by simp
        then show False using e'(2) False by simp
      qed
      then show ?thesis using False by simp
    qed
  qed
  then show ?thesis
    unfolding foldl_Map_delete by (intro filter_cong) auto
qed

lemma MemStorage_clearCart_eq:
  "Map_wf ci_id n (cartItems s) \<Longrightarrow>
   MemStorage_clearCart u s =
     (True, s\<lparr>cartItems := filter (\<lambda>e. ci_userId (snd e) \<noteq> u) (cartItems s)\<rparr>)"
  by (simp add: MemStorage_clearCart_def clearCart_filter)

lemma extend_Order [simp]:
  "o_id (InsertOrder.extend x (Order.fields i d)) = i"
  "o_createdAt (InsertOrder.extend x (Order.fields i d)) = d"
  "o_userId (InsertOrder.extend x (Order.fields i d)) = o_userId x"
  "o_total (InsertOrder.extend x (Order.fields i d)) = o_total x"
  "o_status (InsertOrder.extend x (Order.fields i d)) = o_status x"
  "o_address (InsertOrder.extend x (Order.fields i d)) = o_address x"
  by (simp_all add: InsertOrder.defs Order.defs)

lemma enumerate_snd: "x \<in> set (enumerate n xs) \<Longrightarrow> snd x \<in> set xs"
  by (induction xs arbitrary: n) auto

lemma line_items_cong:
  assumes "\<And>c. c \<in> set cart \<Longrightarrow> Map_get pm (ci_productId c) = Map_get pm' (ci_productId c)"
  shows "map (line_item order pm)
           (enumerate n (filter (\<lambda>c. Map_get pm (ci_productId c) \<noteq> None) cart)) =
         map (line_item order pm')
           (enumerate n (filter (\<lambda>c. Map_get pm' (ci_productId c) \<noteq> None) cart))"
proof -
  have f: "filter (\<lambda>c. Map_get pm (ci_productId c) \<noteq> None) cart =
           filter (\<lambda>c. Map_get pm' (ci_productId c) \<noteq> None) cart"
    by (rule filter_cong[OF refl]) (simp only: assms)
  have "\<And>x. x \<in> set (enumerate n (filter (\<lambda>c. Map_get pm' (ci_productId c) \<noteq> None) cart))
          \<Longrightarrow> line_item order pm x = line_item order pm' x"
  proof -
    fix x assume "x \<in> set (enumerate n (filter (\<lambda>c. Map_get pm' (ci_productId c) \<noteq> None) cart))"
    then have "snd x \<in> set (filter (\<lambda>c. Map_get pm' (ci_productId c) \<noteq> None) cart)"
      by (rule enumerate_snd)
    then have "snd x \<in> set cart" by simp
    then show "line_item order pm x = line_item order pm' x"
      by (simp add: line_item_def assms)
  qed
  then show ?thesis
    unfolding f by (intro map_cong refl)
qed

lemma post_orders_nonempty:
  assumes wf: "MemStorage_wf s" and ne: "MemStorage_getCartItems s u \<noteq> []"
  shows "post_orders u a t d s =
     (Inr (InsertOrder.extend
             \<lparr>o_userId = u, o_total = t, o_status = ''pending'', o_address = a\<rparr>
             (Order.fields (orderId s) d)),
      s\<lparr>orderId := orderId s + 1,
        orders := orders s @
          [(orderId s, InsertOrder.extend
             \<lparr>o_userId = u, o_total = t, o_status = ''pending'', o_address = a\<rparr>
             (Order.fields (orderId s) d))],
        orderItemId := orderItemId s +
          length (filter (\<lambda>c. MemStorage_getProductById s (ci_productId c) \<noteq> None)
                    (MemStorage_getCartItems s u)),
        orderItems := orderItems s @
          map (line_item
                 (InsertOrder.extend
                    \<lparr>o_userId = u, o_total = t, o_status = ''pending'', o_address = a\<rparr>
                    (Order.fields (orderId s) d))
                 (products s))
            (enumerate (orderItemId s)
               (filter (\<lambda>c. MemStorage_getProductById s (ci_productId c) \<noteq> None)
                  (MemStorage_getCartItems s u))),
        cartItems := filter (\<lambda>e. ci_userId (snd e) \<noteq> u) (cartItems s)\<rparr>)"
proof -
  let ?order = "InsertOrder.extend
             \<lparr>o_userId = u, o_total = t, o_status = ''pending'', o_address = a\<rparr>
             (Order.fields (orderId s) d)"
  let ?cart = "MemStorage_getCartItems s u"
  let ?s1 = "s\<lparr>orderId := orderId s + 1, orders := Map_set (orderId s) ?order (orders s)\<rparr>"
  let ?pm = "new_Map (map (\<lambda>product. (p_id product, product))
               (MemStorage_getProductsByIds ?s1 (map ci_productId ?cart)))"
  let ?s2 = "createOrderItems ?order ?pm ?cart ?s1"
  have wfo: "Map_wf o_id (orderId s) (orders s)" and wfi: "Map_wf oi_id (orderItemId s) (orderItems s)"
    and wfp: "Map_wf p_id (productId s) (products s)" and wfc: "Map_wf ci_id (cartItemId s) (cartItems s)"
    using wf by (simp_all add: MemStorage_wf_def)
  have orders1: "Map_set (orderId s) ?order (orders s) = orders s @ [(orderId s, ?order)]"
    using Map_wf_fresh[OF wfo] by (simp add: Map_set_fresh)
  have cart1: "MemStorage_getCartItems ?s1 u = ?cart"
    by (simp add: MemStorage_getCartItems_def)
  have pm: "\<And>c. c \<in> set ?cart \<Longrightarrow> Map_get ?pm (ci_productId c) = Map_get (products s) (ci_productId c)"
    using productsMap_get[OF wfp, of "map ci_productId ?cart"]
    by (simp add: MemStorage_getProductsByIds_def)
  have wfi1: "Map_wf oi_id (orderItemId ?s1) (orderItems ?s1)" using wfi by simp
  have s2: "?s2 = ?s1\<lparr>orderItemId := orderItemId s +
          length (filter (\<lambda>c. Map_get (products s) (ci_productId c) \<noteq> None) ?cart),
        orderItems := orderItems s @
          map (line_item ?order (products s))
            (enumerate (orderItemId s)
               (filter (\<lambda>c. Map_get (products s) (ci_productId c) \<noteq> None) ?cart))\<rparr>"
  proof -
    have sel: "orderItemId ?s1 = orderItemId s" "orderItems ?s1 = orderItems s" by simp_all
    have f: "filter (\<lambda>c. Map_get ?pm (ci_productId c) \<noteq> None) ?cart =
             filter (\<lambda>c. Map_get (products s) (ci_productId c) \<noteq> None) ?cart"
      by (rule filter_cong[OF refl]) (simp only: pm)
    have l: "map (line_item ?order ?pm)
               (enumerate (orderItemId s)
                  (filter (\<lambda>c. Map_get ?pm (ci_productId c) \<noteq> None) ?cart)) =
             map (line_item ?order (products s))
               (enumerate (orderItemId s)
                  (filter (\<lambda>c. Map_get (products s) (ci_productId c) \<noteq> None) ?cart))"
      by (rule line_items_cong[OF pm])
    show ?thesis
      unfolding createOrderItems_result[OF wfi1] sel l
      unfolding f by (rule refl)
  qed
  have wfc2: "Map_wf ci_id (cartItemId s) (cartItems ?s2)" unfolding s2 using wfc by simp
  have clear: "MemStorage_clearCart u ?s2 =
      (True, ?s2\<lparr>cartItems := filter (\<lambda>e. ci_userId (snd e) \<noteq> u) (cartItems ?s2)\<rparr>)"
    by (rule MemStorage_clearCart_eq[OF wfc2])
  have "post_orders u a t d s =
      (Inr ?order, ?s2\<lparr>cartItems := filter (\<lambda>e. ci_userId (snd e) \<noteq> u) (cartItems ?s2)\<rparr>)"
    unfolding post_orders_def MemStorage_createOrder_def Let_def prod.case cart1 clear
    using ne by simp
  then have "post_orders u a t d s =
      (Inr ?order,
       ?s1\<lparr>orderItemId := orderItemId s +
          length (filter (\<lambda>c. Map_get (products s) (ci_productId c) \<noteq> None) ?cart),
        orderItems := orderItems s @
          map (line_item ?order (products s))
            (enumerate (orderItemId s)
               (filter (\<lambda>c. Map_get (products s) (ci_productId c) \<noteq> None) ?cart)),
        cartItems := filter (\<lambda>e. ci_userId (snd e) \<noteq> u) (cartItems s)\<rparr>)"
    by (simp only: s2) simp
  then show ?thesis
    by (simp add: orders1 MemStorage_getProductById_def)
qed

section \<open>Evaluation of the example states\<close>

lemmas extend_defs =
  InsertUser.defs User.defs InsertCategory.defs Category.defs InsertProduct.defs Product.defs
  InsertOrder.defs Order.defs InsertOrderItem.defs OrderItem.defs InsertCartItem.defs
  CartItem.defs

lemmas MemStorage_defs =
  MemStorage_new_def MemStorage_createUser_def MemStorage_createCategory_def
  MemStorage_createProduct_def MemStorage_createOrder_def MemStorage_createOrderItem_def
  MemStorage_createCartItem_def MemStorage_updateCartItem_def MemStorage_deleteCartItem_def
  MemStorage_clearCart_def MemStorage_getCartItems_def MemStorage_getCartItem_def
  MemStorage_getProductById_def MemStorage_getProductsByIds_def MemStorage_getOrders_def
  MemStorage_getUser_def MemStorage_getCategoryById_def MemStorage_getOrderById_def
  Map_get_def Map_values_def Map_delete_def Map_has_def new_Map_def

lemma shop_AB_eq:
  "shop_AB =
     \<lparr>users = [], categories = [],
      products =
        [(1, \<lparr>p_name = ''A'', p_slug = ''a'', p_description = ''first'', p_price = 10,
               p_imageUrl = ''a.png'', p_stock = 5, p_categoryId = None, p_isOnSale = True,
               p_salePrice = Some 8, p_isNew = False, p_id = 1, p_rating = 9 / 2,
               p_reviewCount = 4\<rparr>),
         (2, \<lparr>p_name = ''B'', p_slug = ''b'', p_description = ''second'', p_price = 20,
               p_imageUrl = ''b.png'', p_stock = 5, p_categoryId = None, p_isOnSale = False,
               p_salePrice = None, p_isNew = False, p_id = 2, p_rating = 9 / 2,
               p_reviewCount = 7\<rparr>)],
      orders = [], orderItems = [], cartItems = [], userId = 1, categoryId = 1,
      productId = 3, orderId = 1, orderItemId = 1, cartItemId = 1\<rparr>"
  by (simp add: shop_AB_def product_A_def product_B_def MemStorage_defs extend_defs Let_def)

lemma cart_AB_eq:
  "cart_AB =
     shop_AB\<lparr>cartItems :=
        [(1, \<lparr>ci_userId = 1, ci_productId = 1, ci_quantity = 2, ci_id = 1\<rparr>),
         (2, \<lparr>ci_userId = 1, ci_productId = 2, ci_quantity = 1, ci_id = 2\<rparr>)],
       cartItemId := 3\<rparr>"
  by (simp add: cart_AB_def shop_AB_eq post_cart_def MemStorage_defs extend_defs Let_def)

lemma cart_missing_eq:
  "cart_missing =
     shop_AB\<lparr>cartItems :=
        [(1, \<lparr>ci_userId = 1, ci_productId = 1, ci_quantity = 2, ci_id = 1\<rparr>),
         (2, \<lparr>ci_userId = 1, ci_productId = 2, ci_quantity = 1, ci_id = 2\<rparr>),
         (3, \<lparr>ci_userId = 1, ci_productId = 7, ci_quantity = 1, ci_id = 3\<rparr>),
         (4, \<lparr>ci_userId = 2, ci_productId = 2, ci_quantity = 4, ci_id = 4\<rparr>)],
       cartItemId := 5\<rparr>"
  by (simp add: cart_missing_def cart_AB_eq shop_AB_eq MemStorage_defs extend_defs Let_def)

lemma cart_Z_eq:
  "cart_Z =
     \<lparr>users = [], categories = [],
      products =
        [(1, \<lparr>p_name = ''Z'', p_slug = ''z'', p_description = ''free on sale'',
               p_price = 10, p_imageUrl = ''z.png'', p_stock = 5, p_categoryId = None,
               p_isOnSale = True, p_salePrice = Some 0, p_isNew = False, p_id = 1,
               p_rating = 9 / 2, p_reviewCount = 1\<rparr>)],
      orders = [], orderItems = [],
      cartItems = [(1, \<lparr>ci_userId = 1, ci_productId = 1, ci_quantity = 1, ci_id = 1\<rparr>)],
      userId = 1, categoryId = 1, productId = 2, orderId = 1, orderItemId = 1,
      cartItemId = 2\<rparr>"
  by (simp add: cart_Z_def product_Z_def post_cart_def MemStorage_defs extend_defs Let_def)

lemma wf_examples:
  "MemStorage_wf MemStorage_new" "MemStorage_wf shop_AB" "MemStorage_wf cart_AB"
  "MemStorage_wf cart_missing" "MemStorage_wf cart_Z"
  by (simp_all add: cart_missing_eq cart_AB_eq cart_Z_eq shop_AB_eq MemStorage_new_def
      MemStorage_wf_def Map_wf_def)

section \<open>The records checkout creates\<close>

lemma getCartItems_cleared:
  "MemStorage_getCartItems (s\<lparr>cartItems := filter (\<lambda>e. ci_userId (snd e) \<noteq> u) m\<rparr>) u = []"
  by (simp add: MemStorage_getCartItems_def Map_values_def filter_map o_def)

lemma Map_values_append: "Map_values (m @ m') = Map_values m @ Map_values m'"
  by (simp add: Map_values_def)

lemma line_items_fields:
  "map (\<lambda>e. f (oi_orderId (snd (line_item order pm e))) (oi_productId (snd (line_item order pm e)))
              (oi_quantity (snd (line_item order pm e))) (oi_price (snd (line_item order pm e))))
       (enumerate n cs) =
   map (\<lambda>c. f (o_id order) (ci_productId c) (ci_quantity c)
              (effectivePrice (the (Map_get pm (ci_productId c))))) cs"
  by (induction cs arbitrary: n) (simp_all add: line_item_def)

lemma post_orders_created:
  assumes wf: "MemStorage_wf s" and ne: "MemStorage_getCartItems s u \<noteq> []"
  shows "\<exists>order s' new.
     post_orders u a t d s = (Inr order, s') \<and>
     o_id order = orderId s \<and>
     Map_values (orders s') = Map_values (orders s) @ [order] \<and>
     Map_values (orderItems s') = Map_values (orderItems s) @ new \<and>
     new = map snd (map (line_item order (products s))
             (enumerate (orderItemId s)
                (filter (\<lambda>c. MemStorage_getProductById s (ci_productId c) \<noteq> None)
                   (MemStorage_getCartItems s u)))) \<and>
     MemStorage_getCartItems s' u = []"
  unfolding post_orders_nonempty[OF wf ne]
  by (simp add: Map_values_append getCartItems_cleared) (simp add: Map_values_def)

section \<open>Identifiers are issued in sequence\<close>

lemma extend_ids [simp]:
  "u_id (InsertUser.extend xu (User.fields i b)) = i"
  "c_id (InsertCategory.extend xc (Category.fields i)) = i"
  "p_id (InsertProduct.extend xp (Product.fields i r n)) = i"
  "ci_id (InsertCartItem.extend xi (CartItem.fields i)) = i"
  "ci_userId (InsertCartItem.extend xi (CartItem.fields i)) = ci_userId xi"
  "ci_productId (InsertCartItem.extend xi (CartItem.fields i)) = ci_productId xi"
  "ci_quantity (InsertCartItem.extend xi (CartItem.fields i)) = ci_quantity xi"
  by (simp_all add: extend_defs)

lemma MemStorage_call_issued:
  "fst (MemStorage_call x s) = (if creates c x then Some (c, counter c s) else
      (case fst (MemStorage_call x s) of None \<Rightarrow> None | Some e \<Rightarrow> Some e))"
  by (cases x; cases c) (simp_all add: MemStorage_defs Let_def split: option.splits)

lemma MemStorage_call_other:
  "\<not> creates c x \<Longrightarrow> fst (MemStorage_call x s) = Some e \<Longrightarrow> fst e \<noteq> c"
  by (cases x; cases c) (auto simp: MemStorage_defs Let_def)

lemma MemStorage_call_counter:
  "counter c (snd (MemStorage_call x s)) = (if creates c x then counter c s + 1 else counter c s)"
  by (cases x; cases c) (simp_all add: MemStorage_defs Let_def split: option.splits prod.splits)

lemma issued_ids_Cons:
  "issued_ids c (x # xs) s =
     (if creates c x then [counter c s] else []) @ issued_ids c xs (snd (MemStorage_call x s))"
proof (cases "creates c x")
  case True
  then have "fst (MemStorage_call x s) = Some (c, counter c s)"
    using MemStorage_call_issued[of x s c] by simp
  then show ?thesis using True
    by (simp add: issued_ids_def Let_def case_prod_beta)
next
  case False
  then show ?thesis
    using MemStorage_call_other[OF False, of s]
    by (cases "fst (MemStorage_call x s)") (simp_all add: issued_ids_def Let_def case_prod_beta)
qed

lemma issued_ids_upt:
  "issued_ids c xs s = [counter c s ..< counter c s + length (filter (creates c) xs)]"
proof (induction xs arbitrary: s)
  case Nil
  then show ?case by (simp add: issued_ids_def)
next
  case (Cons x xs)
  show ?case
    unfolding issued_ids_Cons Cons.IH MemStorage_call_counter
    by (simp add: upt_rec[of "counter c s"])
qed

section \<open>At most one cart item per user and product\<close>

lemma Map_set_subset: "set (Map_set k v m) \<subseteq> insert (k, v) (set m)"
  by (induction m) auto

lemma Map_set_distinct_image:
  "distinct (map g m) \<Longrightarrow> g (k, v) \<notin> g ` set m \<Longrightarrow> distinct (map g (Map_set k v m))"
proof (induction m)
  case Nil
  then show ?case by simp
next
  case (Cons e m)
  have sub: "g ` set (Map_set k v m) \<subseteq> insert (g (k, v)) (g ` set m)"
    using image_mono[OF Map_set_subset[of k v m], of g] by simp
  show ?case
  proof (cases "fst e = k")
    case True
    then show ?thesis using Cons.prems by simp
  next
    case False
    have "g e \<noteq> g (k, v)" "g e \<notin> g ` set m" using Cons.prems by auto
    then have "g e \<notin> g ` set (Map_set k v m)" using sub by blast
    moreover have "distinct (map g (Map_set k v m))" using Cons by simp
    ultimately show ?thesis using False by simp
  qed
qed

lemma Map_set_distinct_snd:
  "distinct (map f (Map_values m)) \<Longrightarrow> f v \<notin> f ` set (Map_values m) \<Longrightarrow>
   distinct (map f (Map_values (Map_set k v m)))"
  using Map_set_distinct_image[of "f \<circ> snd" m k v]
  by (simp add: Map_values_def image_image)

lemma Map_set_same_image:
  "Map_get m k = Some c \<Longrightarrow> f v = f c \<Longrightarrow>
   map f (Map_values (Map_set k v m)) = map f (Map_values m)"
  by (induction m) (auto simp: Map_get_def Map_values_def split: if_splits)

lemma find_Map_set_new:
  "find P (Map_values m) = None \<Longrightarrow> P v \<Longrightarrow> find P (Map_values (Map_set k v m)) = Some v"
  by (induction m) (auto simp: Map_values_def split: if_splits)

lemma cart_unique_createCartItem:
  assumes "cart_unique s"
    and "MemStorage_getCartItem s (ci_userId x) (ci_productId x) = None"
  shows "cart_unique (snd (MemStorage_createCartItem x s))"
proof -
  have "\<forall>item \<in> set (Map_values (cartItems s)).
          \<not> (ci_userId item = ci_userId x \<and> ci_productId item = ci_productId x)"
    using assms(2) by (simp add: MemStorage_getCartItem_def find_None_iff)
  then have "(ci_userId x, ci_productId x)
      \<notin> (\<lambda>item. (ci_userId item, ci_productId item)) ` set (Map_values (cartItems s))"
    by auto
  then show ?thesis
    using assms(1) Map_set_distinct_snd[of "\<lambda>item. (ci_userId item, ci_productId item)"
        "cartItems s" "InsertCartItem.extend x (CartItem.fields (cartItemId s))" "cartItemId s"]
    by (simp add: cart_unique_def MemStorage_createCartItem_def Let_def)
qed

lemma cart_unique_updateCartItem:
  "cart_unique s \<Longrightarrow> cart_unique (snd (MemStorage_updateCartItem i q s))"
proof (cases "Map_get (cartItems s) i")
  case None
  assume "cart_unique s"
  then show ?thesis using None by (simp add: MemStorage_updateCartItem_def)
next
  case (Some c)
  assume "cart_unique s"
  then show ?thesis
    using Some Map_set_same_image[OF Some, of "\<lambda>item. (ci_userId item, ci_productId item)"
        "c\<lparr>ci_quantity := q\<rparr>"]
    by (simp add: MemStorage_updateCartItem_def cart_unique_def Let_def)
qed

lemma cart_unique_filter:
  "cart_unique s \<Longrightarrow> cart_unique (s\<lparr>cartItems := filter P (cartItems s)\<rparr>)"
  by (simp add: cart_unique_def Map_values_def distinct_map_filter)

lemma cart_unique_deleteCartItem:
  "cart_unique s \<Longrightarrow> cart_unique (snd (MemStorage_deleteCartItem i s))"
  using cart_unique_filter[of s "\<lambda>e. fst e \<noteq> i"]
  by (simp add: MemStorage_deleteCartItem_def Map_delete_def)

lemma cart_unique_clearCart:
  "cart_unique s \<Longrightarrow> cart_unique (snd (MemStorage_clearCart u s))"
  using cart_unique_filter[of s]
  by (simp add: MemStorage_clearCart_def foldl_Map_delete Let_def)

lemma createOrderItems_cartItems:
  "cartItems (createOrderItems order pm items s) = cartItems s"
  by (induction items arbitrary: s)
     (simp_all add: MemStorage_createOrderItem_def Let_def split: option.splits)

lemma cart_unique_cong: "cartItems s' = cartItems s \<Longrightarrow> cart_unique s' = cart_unique s"
  by (simp add: cart_unique_def)

lemma cart_unique_post_orders:
  assumes "cart_unique s"
  shows "cart_unique (snd (post_orders u a t d s))"
proof -
  let ?s1 = "snd (MemStorage_createOrder
     \<lparr>o_userId = u, o_total = t, o_status = ''pending'', o_address = a\<rparr> d s)"
  have c1: "cartItems ?s1 = cartItems s" by (simp add: MemStorage_createOrder_def Let_def)
  have u1: "cart_unique ?s1" using assms cart_unique_cong[OF c1] by simp
  have "cart_unique (snd (MemStorage_clearCart u (createOrderItems order pm items ?s1)))"
    for order pm items
    by (rule cart_unique_clearCart)
       (simp add: cart_unique_cong[OF createOrderItems_cartItems] u1)
  then show ?thesis
    using u1 by (simp add: post_orders_def Let_def case_prod_beta)
qed

lemma cart_unique_post_cart:
  assumes "cart_unique s"
  shows "cart_unique (snd (post_cart u p q s))"
proof (cases "MemStorage_getProductById s p")
  case None
  then show ?thesis using assms by (simp add: post_cart_def)
next
  case (Some product)
  show ?thesis
  proof (cases "MemStorage_getCartItem s u p")
    case None
    then show ?thesis
      using Some cart_unique_createCartItem[OF assms,
          of "\<lparr>ci_userId = u, ci_productId = p, ci_quantity = q\<rparr>"]
      by (simp add: post_cart_def case_prod_beta)
  next
    case (Some existing)
    then show ?thesis
      using \<open>MemStorage_getProductById s p = Some product\<close>
        cart_unique_updateCartItem[OF assms]
      by (simp add: post_cart_def case_prod_beta)
  qed
qed

lemma cart_unique_handle: "cart_unique s \<Longrightarrow> cart_unique (handle r s)"
proof (cases r)
  case (PostCart u p q)
  assume "cart_unique s"
  then show ?thesis using PostCart by (simp add: cart_unique_post_cart)
next
  case (PutCart i q)
  assume "cart_unique s"
  then show ?thesis using PutCart cart_unique_updateCartItem[of s i q]
    by (cases "MemStorage_updateCartItem i q s") (auto simp: put_cart_def split: option.splits)
next
  case (DeleteCartItemById i)
  assume "cart_unique s"
  then show ?thesis using DeleteCartItemById cart_unique_deleteCartItem[of s i]
    by (simp add: delete_cart_item_def case_prod_beta)
next
  case (DeleteCart u)
  assume "cart_unique s"
  then show ?thesis using DeleteCart cart_unique_clearCart[of s u]
    by (simp add: delete_cart_def case_prod_beta)
next
  case (PostOrders u a t d)
  assume "cart_unique s"
  then show ?thesis using PostOrders by (simp add: cart_unique_post_orders)
qed

lemma cart_unique_handle_all: "cart_unique s \<Longrightarrow> cart_unique (handle_all reqs s)"
  unfolding handle_all_def
  by (induction reqs arbitrary: s) (simp_all add: cart_unique_handle)

lemma handle_all_example:
  "handle_all [PostCart 1 1 2, PostCart 1 1 3, PostCart 1 2 1] shop_AB =
     shop_AB\<lparr>cartItems :=
        [(1, \<lparr>ci_userId = 1, ci_productId = 1, ci_quantity = 5, ci_id = 1\<rparr>),
         (2, \<lparr>ci_userId = 1, ci_productId = 2, ci_quantity = 1, ci_id = 2\<rparr>)],
       cartItemId := 3\<rparr>"
  by (simp add: handle_all_def shop_AB_eq post_cart_def MemStorage_defs extend_defs Let_def)

section \<open>Create followed by get-by-id\<close>

lemma find_append_new:
  "\<forall>r \<in> set rows. \<not> P r \<Longrightarrow> P new \<Longrightarrow> find P (rows @ [new]) = Some new"
  by (induction rows) auto

lemma pg_roundtrip:
  "pg_table_wf idf t \<Longrightarrow> (\<And>i. idf (mk i) = i) \<Longrightarrow>
   pg_select_limit1 (\<lambda>row. idf row = idf (fst (pg_insert_returning mk t)))
     (snd (pg_insert_returning mk t)) = Some (fst (pg_insert_returning mk t))"
  unfolding pg_select_limit1_def pg_insert_returning_def Let_def
  by (simp, rule find_append_new) (auto simp: pg_table_wf_def list_all_iff)

lemma mg_roundtrip:
  "mg_collection_wf idf cnt docs \<Longrightarrow>
   idf new = (case cnt of None \<Rightarrow> 1 | Some n \<Rightarrow> n + 1) \<Longrightarrow>
   findOne (\<lambda>d. idf d = idf new) (insertOne new docs) = Some new"
  unfolding findOne_def insertOne_def
  by (rule find_append_new) (auto simp: mg_collection_wf_def list_all_iff split: option.splits)

lemma extend_id_Order [simp]: "o_id (InsertOrder.extend xo (Order.fields i d)) = i"
  by (simp add: extend_defs)

lemmas PgStorage_defs =
  PgStorage_empty_def pg_table_empty_def pg_insert_returning_def pg_select_limit1_def
  pg_select_def pg_delete_def PgStorage_getUser_def PgStorage_createUser_def
  PgStorage_getCategoryById_def PgStorage_createCategory_def PgStorage_getProductById_def
  PgStorage_createProduct_def PgStorage_getOrderById_def PgStorage_createOrder_def
  PgStorage_getCartItems_def PgStorage_createCartItem_def PgStorage_deleteCartItem_def
  PgStorage_clearCart_def

lemmas MongoDbStorage_defs =
  MongoDb_empty_def findOne_def insertOne_def deleteMany_def MongoDbStorage_getNextId_def
  MongoDbStorage_getUser_def MongoDbStorage_createUser_def MongoDbStorage_getCategoryById_def
  MongoDbStorage_createCategory_def MongoDbStorage_getProductById_def
  MongoDbStorage_createProduct_def MongoDbStorage_getOrderById_def
  MongoDbStorage_createOrder_def MongoDbStorage_getCartItems_def
  MongoDbStorage_createCartItem_def MongoDbStorage_deleteCartItem_def
  MongoDbStorage_clearCart_def

lemma wf_stores:
  "PgStorage_wf (snd (PgStorage_createUser user_ann PgStorage_empty))"
  "MongoDb_wf (snd (MongoDbStorage_createUser user_ann MongoDb_empty))"
  by (simp_all add: PgStorage_wf_def MongoDb_wf_def pg_table_wf_def mg_collection_wf_def
      PgStorage_defs MongoDbStorage_defs user_ann_def extend_defs Let_def)

section \<open>Clearing a cart\<close>

lemma Map_values_filter_snd:
  "Map_values (filter (\<lambda>e. P (snd e)) m) = filter P (Map_values m)"
  by (simp add: Map_values_def filter_map o_def)

lemma pg_carts_rows:
  "pg_rows (pg_cartItems pg_carts) =
     [\<lparr>ci_userId = 1, ci_productId = 1, ci_quantity = 2, ci_id = 1\<rparr>,
      \<lparr>ci_userId = 2, ci_productId = 2, ci_quantity = 4, ci_id = 2\<rparr>]"
  by (simp add: pg_carts_def PgStorage_defs extend_defs Let_def)

lemma mg_carts_docs:
  "mg_cartItems mg_carts =
     [\<lparr>ci_userId = 1, ci_productId = 1, ci_quantity = 2, ci_id = 1\<rparr>,
      \<lparr>ci_userId = 2, ci_productId = 2, ci_quantity = 4, ci_id = 2\<rparr>]"
  by (simp add: mg_carts_def MongoDbStorage_defs extend_defs Let_def)

section \<open>The well-formedness conditions are invariants\<close>

text \<open>
  The constructor's state is well formed and every storage method and every request handler
  keeps a well-formed state well formed; the same holds for the modelled relational and
  document stores under the create methods. So the hypotheses of the claims below hold in
  every state the program reaches.
\<close>

lemma MemStorage_wf_createUser:
  "MemStorage_wf s \<Longrightarrow> MemStorage_wf (snd (MemStorage_createUser x s))"
  by (simp add: MemStorage_wf_def MemStorage_createUser_def Let_def Map_wf_set_new)

lemma MemStorage_wf_createCategory:
  "MemStorage_wf s \<Longrightarrow> MemStorage_wf (snd (MemStorage_createCategory x s))"
  by (simp add: MemStorage_wf_def MemStorage_createCategory_def Let_def Map_wf_set_new)

lemma MemStorage_wf_createProduct:
  "MemStorage_wf s \<Longrightarrow> MemStorage_wf (snd (MemStorage_createProduct x rnd s))"
  by (simp add: MemStorage_wf_def MemStorage_createProduct_def Let_def Map_wf_set_new)

lemma MemStorage_wf_createOrder:
  "MemStorage_wf s \<Longrightarrow> MemStorage_wf (snd (MemStorage_createOrder x date s))"
  by (simp add: MemStorage_wf_def MemStorage_createOrder_def Let_def Map_wf_set_new)

lemma MemStorage_wf_createOrderItem:
  "MemStorage_wf s \<Longrightarrow> MemStorage_wf (snd (MemStorage_createOrderItem x s))"
  by (simp add: MemStorage_wf_def MemStorage_createOrderItem_def Let_def Map_wf_set_new)

lemma MemStorage_wf_createCartItem:
  "MemStorage_wf s \<Longrightarrow> MemStorage_wf (snd (MemStorage_createCartItem x s))"
  by (simp add: MemStorage_wf_def MemStorage_createCartItem_def Let_def Map_wf_set_new)

lemma MemStorage_wf_updateCartItem:
  assumes "MemStorage_wf s"
  shows "MemStorage_wf (snd (MemStorage_updateCartItem i q s))"
proof (cases "Map_get (cartItems s) i")
  case None
  then show ?thesis using assms by (simp add: MemStorage_updateCartItem_def)
next
  case (Some c)
  have wfc: "Map_wf ci_id (cartItemId s) (cartItems s)"
    using assms by (simp add: MemStorage_wf_def)
  have "ci_id (c\<lparr>ci_quantity := q\<rparr>) = i" using Map_wf_get_id[OF wfc Some] by simp
  then have "Map_wf ci_id (cartItemId s) (Map_set i (c\<lparr>ci_quantity := q\<rparr>) (cartItems s))"
    by (rule Map_wf_set_same[OF wfc Some])
  then show ?thesis
    using assms Some by (simp add: MemStorage_wf_def MemStorage_updateCartItem_def Let_def)
qed

lemma MemStorage_wf_deleteCartItem:
  "MemStorage_wf s \<Longrightarrow> MemStorage_wf (snd (MemStorage_deleteCartItem i s))"
  by (simp add: MemStorage_wf_def MemStorage_deleteCartItem_def Map_delete_def Map_wf_filter)

lemma MemStorage_wf_clearCart:
  "MemStorage_wf s \<Longrightarrow> MemStorage_wf (snd (MemStorage_clearCart u s))"
  by (simp add: MemStorage_wf_def MemStorage_clearCart_def foldl_Map_delete Map_wf_filter Let_def)

lemma MemStorage_wf_call: "MemStorage_wf s \<Longrightarrow> MemStorage_wf (snd (MemStorage_call x s))"
  by (cases x)
     (simp_all add: case_prod_beta MemStorage_wf_createUser MemStorage_wf_createCategory
        MemStorage_wf_createProduct MemStorage_wf_createOrder MemStorage_wf_createOrderItem
        MemStorage_wf_createCartItem MemStorage_wf_updateCartItem MemStorage_wf_deleteCartItem
        MemStorage_wf_clearCart)

lemma MemStorage_wf_calls: "MemStorage_wf s \<Longrightarrow> MemStorage_wf (snd (MemStorage_calls xs s))"
  by (induction xs arbitrary: s) (simp_all add: case_prod_beta Let_def MemStorage_wf_call)

lemma MemStorage_wf_createOrderItems:
  "MemStorage_wf s \<Longrightarrow> MemStorage_wf (createOrderItems order pm items s)"
proof (induction items arbitrary: s)
  case Nil
  then show ?case by simp
next
  case (Cons item items)
  show ?case
  proof (cases "Map_get pm (ci_productId item)")
    case None
    then show ?thesis using Cons by simp
  next
    case (Some product)
    then show ?thesis
      using Cons.IH[OF MemStorage_wf_createOrderItem[OF Cons.prems]]
      by (simp add: case_prod_beta Let_def)
  qed
qed

lemma MemStorage_wf_post_orders:
  "MemStorage_wf s \<Longrightarrow> MemStorage_wf (snd (post_orders u a t d s))"
  by (simp add: post_orders_def Let_def case_prod_beta MemStorage_wf_createOrder
      MemStorage_wf_createOrderItems MemStorage_wf_clearCart)

lemma MemStorage_wf_handle: "MemStorage_wf s \<Longrightarrow> MemStorage_wf (handle r s)"
proof (cases r)
  case (PostCart u p q)
  assume "MemStorage_wf s"
  then show ?thesis
    using PostCart
    by (simp add: post_cart_def case_prod_beta MemStorage_wf_createCartItem
        MemStorage_wf_updateCartItem split: option.splits)
next
  case (PutCart i q)
  assume "MemStorage_wf s"
  then show ?thesis
    using PutCart MemStorage_wf_updateCartItem[of s i q]
    by (cases "MemStorage_updateCartItem i q s") (auto simp: put_cart_def split: option.splits)
next
  case (DeleteCartItemById i)
  assume "MemStorage_wf s"
  then show ?thesis
    using DeleteCartItemById by (simp add: delete_cart_item_def case_prod_beta MemStorage_wf_deleteCartItem)
next
  case (DeleteCart u)
  assume "MemStorage_wf s"
  then show ?thesis
    using DeleteCart by (simp add: delete_cart_def case_prod_beta MemStorage_wf_clearCart)
next
  case (PostOrders u a t d)
  assume "MemStorage_wf s"
  then show ?thesis using PostOrders by (simp add: MemStorage_wf_post_orders)
qed

lemma MemStorage_wf_handle_all: "MemStorage_wf s \<Longrightarrow> MemStorage_wf (handle_all reqs s)"
  unfolding handle_all_def
  by (induction reqs arbitrary: s) (simp_all add: MemStorage_wf_handle)

lemma pg_table_wf_insert:
  "pg_table_wf idf t \<Longrightarrow> (\<And>i. idf (mk i) = i) \<Longrightarrow>
   pg_table_wf idf (snd (pg_insert_returning mk t))"
  by (auto simp: pg_table_wf_def pg_insert_returning_def Let_def list_all_iff less_Suc_eq)

lemma PgStorage_wf_create:
  assumes "PgStorage_wf pg"
  shows "PgStorage_wf (snd (PgStorage_createUser user pg))"
    and "PgStorage_wf (snd (PgStorage_createCategory category pg))"
    and "PgStorage_wf (snd (PgStorage_createProduct product rnd pg))"
    and "PgStorage_wf (snd (PgStorage_createOrder order date pg))"
    and "PgStorage_wf (snd (PgStorage_createCartItem cartItem pg))"
  using assms
  by (simp_all add: PgStorage_wf_def PgStorage_createUser_def PgStorage_createCategory_def
      PgStorage_createProduct_def PgStorage_createOrder_def PgStorage_createCartItem_def
      case_prod_beta pg_table_wf_insert)

lemma PgStorage_wf_empty: "PgStorage_wf PgStorage_empty"
  by (simp add: PgStorage_wf_def PgStorage_empty_def pg_table_empty_def pg_table_wf_def)

lemma mg_collection_wf_insert:
  "mg_collection_wf idf cnt docs \<Longrightarrow>
   mg_collection_wf idf (Some (case cnt of None \<Rightarrow> 1 | Some n \<Rightarrow> n + 1))
     (insertOne new docs) = (idf new \<le> (case cnt of None \<Rightarrow> 1 | Some n \<Rightarrow> n + 1))"
  by (auto simp: mg_collection_wf_def insertOne_def list_all_iff split: option.splits)

lemma MongoDb_wf_create:
  assumes "MongoDb_wf mg"
  shows "MongoDb_wf (snd (MongoDbStorage_createUser user mg))"
    and "MongoDb_wf (snd (MongoDbStorage_createCategory category mg))"
    and "MongoDb_wf (snd (MongoDbStorage_createProduct product rnd mg))"
    and "MongoDb_wf (snd (MongoDbStorage_createOrder order date mg))"
    and "MongoDb_wf (snd (MongoDbStorage_createCartItem cartItem mg))"
  using assms
  by (simp_all add: MongoDb_wf_def MongoDbStorage_createUser_def
      MongoDbStorage_createCategory_def MongoDbStorage_createProduct_def
      MongoDbStorage_createOrder_def MongoDbStorage_createCartItem_def
      MongoDbStorage_getNextId_def Let_def mg_collection_wf_insert)

lemma MongoDb_wf_empty: "MongoDb_wf MongoDb_empty"
  by (simp add: MongoDb_wf_def MongoDb_empty_def mg_collection_wf_def)

section \<open>Further facts\<close>

text \<open>
  Two successive \<open>getNextId\<close> calls for one collection return consecutive values. Checkout
  with an empty cart, in any state: the response is the error, and the order has been
  stored under the next order id.
\<close>

lemma getNextId_twice:
  "fst (MongoDbStorage_getNextId c (snd (MongoDbStorage_getNextId c db))) =
     fst (MongoDbStorage_getNextId c db) + 1"
  by (simp add: MongoDbStorage_getNextId_def Let_def)

lemma post_orders_empty_cart:
  assumes "MemStorage_getCartItems s u = []"
  shows "fst (post_orders u a t d s) = Inl (HttpError 400 ''Cart is empty'')"
    and "orderId (snd (post_orders u a t d s)) = orderId s + 1"
    and "MemStorage_getOrderById (snd (post_orders u a t d s)) (orderId s) =
           Some \<lparr>o_userId = u, o_total = t, o_status = ''pending'', o_address = a,
                 o_id = orderId s, o_createdAt = d\<rparr>"
  using assms
  by (simp_all add: post_orders_def MemStorage_createOrder_def MemStorage_getCartItems_def
      MemStorage_getOrderById_def Map_get_set Let_def extend_defs)

section \<open>Schedules of \<open>getNextId\<close> calls\<close>

lemma getNextId_value: "fst (MongoDbStorage_getNextId c db) = Suc (sequence_value c db)"
  by (simp add: MongoDbStorage_getNextId_def sequence_value_def Let_def split: option.splits)

lemma getNextId_sequence_value:
  "sequence_value c (snd (MongoDbStorage_getNextId c' db)) =
     (if c' = c then Suc (sequence_value c db) else sequence_value c db)"
  by (simp add: MongoDbStorage_getNextId_def sequence_value_def Let_def split: option.splits)

lemma returned_ids_Cons:
  "returned_ids c (c' # cs) db =
     (if c' = c then [Suc (sequence_value c db)] else []) @
     returned_ids c cs (snd (MongoDbStorage_getNextId c' db))"
  using getNextId_value[of c' db]
  by (simp add: returned_ids_def Let_def case_prod_beta)

lemma returned_ids_upt:
  "returned_ids c schedule db =
     [Suc (sequence_value c db) ..<
      Suc (sequence_value c db) + length (filter (\<lambda>c'. c' = c) schedule)]"
proof (induction schedule arbitrary: db)
  case Nil
  then show ?case by (simp add: returned_ids_def)
next
  case (Cons c' cs)
  show ?case
  proof (cases "c' = c")
    case True
    have "[Suc (sequence_value c db) ..<
           Suc (sequence_value c db) + Suc (length (filter (\<lambda>c'. c' = c) cs))] =
          Suc (sequence_value c db) #
          [Suc (Suc (sequence_value c db)) ..<
           Suc (Suc (sequence_value c db)) + length (filter (\<lambda>c'. c' = c) cs)]"
      by (subst upt_rec) simp
    then show ?thesis
      unfolding returned_ids_Cons Cons.IH getNextId_sequence_value using True by simp
  next
    case False
    then show ?thesis
      unfolding returned_ids_Cons Cons.IH getNextId_sequence_value by simp
  qed
qed

lemma returned_ids_example:
  "returned_ids ''orders'' [''orders'', ''users'', ''orders'', ''orders'']
     (snd (MongoDbStorage_createOrder order_one 7 MongoDb_empty)) = [2, 3, 4]"
  by (simp add: returned_ids_def MongoDbStorage_createOrder_def MongoDbStorage_getNextId_def
      MongoDb_empty_def insertOne_def Let_def)

section \<open>Claims\<close>

text \<open>
  C1 (the code departs from the claim). The claim: checkout with an empty cart fails with
  the empty-cart error and mutates nothing. On the freshly constructed storage user 1 has
  no cart items; \<open>POST /orders\<close> answers status 400 "Cart is empty", but the order was
  created before the cart was read: the storage holds one order afterwards and none before.
\<close>

theorem C1_empty_cart_checkout_creates_order:
  "MemStorage_getCartItems MemStorage_new 1 = [] \<and>
   fst (post_orders 1 ''addr'' 36 99 MemStorage_new) = Inl (HttpError 400 ''Cart is empty'') \<and>
   MemStorage_getOrders MemStorage_new 1 = [] \<and>
   MemStorage_getOrders (snd (post_orders 1 ''addr'' 36 99 MemStorage_new)) 1 =
     [\<lparr>o_userId = 1, o_total = 36, o_status = ''pending'', o_address = ''addr'',
       o_id = 1, o_createdAt = 99\<rparr>] \<and>
   snd (post_orders 1 ''addr'' 36 99 MemStorage_new) \<noteq> MemStorage_new"
  by (simp add: post_orders_def MemStorage_new_def MemStorage_createOrder_def
      MemStorage_getCartItems_def MemStorage_getOrders_def Map_values_def
      InsertOrder.defs Order.defs Let_def)

text \<open>
  C2. In a well-formed state where the cart of user \<open>u\<close> is exactly the two lines
  (product 1, quantity 2) and (product 2, quantity 1), product 1 costs 10.00 and is on sale
  at 8.00 and product 2 costs 20.00 and is not on sale, checkout succeeds, appends exactly
  one order to the orders and exactly two order items, with prices 8.00 and 20.00 in this
  order, to the order items, and the cart listing of \<open>u\<close> is empty afterwards.
\<close>

theorem C2_checkout_of_two_lines:
  assumes "MemStorage_wf s"
    and "MemStorage_getCartItems s u = [c1, c2]"
    and "ci_productId c1 = 1" and "ci_quantity c1 = 2"
    and "ci_productId c2 = 2" and "ci_quantity c2 = 1"
    and "MemStorage_getProductById s 1 = Some p1"
    and "p_price p1 = 10" and "p_isOnSale p1" and "p_salePrice p1 = Some 8"
    and "MemStorage_getProductById s 2 = Some p2"
    and "p_price p2 = 20" and "\<not> p_isOnSale p2"
  shows "\<exists>order s'.
     post_orders u a t d s = (Inr order, s') \<and>
     Map_values (orders s') = Map_values (orders s) @ [order] \<and>
     Map_values (orderItems s') = Map_values (orderItems s) @
       [\<lparr>oi_orderId = o_id order, oi_productId = 1, oi_quantity = 2, oi_price = 8,
         oi_id = orderItemId s\<rparr>,
        \<lparr>oi_orderId = o_id order, oi_productId = 2, oi_quantity = 1, oi_price = 20,
         oi_id = orderItemId s + 1\<rparr>] \<and>
     MemStorage_getCartItems s' u = []"
proof -
  have ne: "MemStorage_getCartItems s u \<noteq> []" using assms(2) by simp
  obtain order s' new where r: "post_orders u a t d s = (Inr order, s')"
    "Map_values (orders s') = Map_values (orders s) @ [order]"
    "Map_values (orderItems s') = Map_values (orderItems s) @ new"
    "new = map snd (map (line_item order (products s))
             (enumerate (orderItemId s)
                (filter (\<lambda>c. MemStorage_getProductById s (ci_productId c) \<noteq> None)
                   (MemStorage_getCartItems s u))))"
    "MemStorage_getCartItems s' u = []"
    using post_orders_created[OF assms(1) ne, of a t d] by blast
  have p1: "effectivePrice p1 = 8" and p2: "effectivePrice p2 = 20"
    using assms by (simp_all add: effectivePrice_def split: option.splits)
  have g: "Map_get (products s) 1 = Some p1" "Map_get (products s) 2 = Some p2"
    using assms(7,11) by (simp_all add: MemStorage_getProductById_def)
  have "new =
       [\<lparr>oi_orderId = o_id order, oi_productId = 1, oi_quantity = 2, oi_price = 8,
         oi_id = orderItemId s\<rparr>,
        \<lparr>oi_orderId = o_id order, oi_productId = 2, oi_quantity = 1, oi_price = 20,
         oi_id = orderItemId s + 1\<rparr>]"
    unfolding r(4) assms(2)
    using assms(3-7,11) p1 p2 g
    by (simp add: line_item_def InsertOrderItem.defs OrderItem.defs)
  then show ?thesis
    by (intro exI[of _ order] exI[of _ s']) (simp add: r(1,2,3,5))
qed

theorem C2_checkout_of_two_lines_witness:
  "MemStorage_wf cart_AB \<and>
   map (\<lambda>c. (ci_productId c, ci_quantity c)) (MemStorage_getCartItems cart_AB 1) =
     [(1, 2), (2, 1)] \<and>
   (\<exists>order s'.
     post_orders 1 ''Main St'' 36 0 cart_AB = (Inr order, s') \<and>
     Map_values (orders s') = [order] \<and>
     Map_values (orderItems s') =
       [\<lparr>oi_orderId = o_id order, oi_productId = 1, oi_quantity = 2, oi_price = 8,
         oi_id = 1\<rparr>,
        \<lparr>oi_orderId = o_id order, oi_productId = 2, oi_quantity = 1, oi_price = 20,
         oi_id = 2\<rparr>] \<and>
     MemStorage_getCartItems s' 1 = [])"
proof -
  have h1: "MemStorage_wf cart_AB" by (rule wf_examples)
  have h2: "MemStorage_getCartItems cart_AB 1 =
      [\<lparr>ci_userId = 1, ci_productId = 1, ci_quantity = 2, ci_id = 1\<rparr>,
       \<lparr>ci_userId = 1, ci_productId = 2, ci_quantity = 1, ci_id = 2\<rparr>]"
    by (simp add: cart_AB_eq shop_AB_eq MemStorage_defs)
  have h7: "MemStorage_getProductById cart_AB 1 =
      Some \<lparr>p_name = ''A'', p_slug = ''a'', p_description = ''first'', p_price = 10,
               p_imageUrl = ''a.png'', p_stock = 5, p_categoryId = None, p_isOnSale = True,
               p_salePrice = Some 8, p_isNew = False, p_id = 1, p_rating = 9 / 2,
               p_reviewCount = 4\<rparr>"
    by (simp add: cart_AB_eq shop_AB_eq MemStorage_defs)
  have h11: "MemStorage_getProductById cart_AB 2 =
      Some \<lparr>p_name = ''B'', p_slug = ''b'', p_description = ''second'', p_price = 20,
               p_imageUrl = ''b.png'', p_stock = 5, p_categoryId = None, p_isOnSale = False,
               p_salePrice = None, p_isNew = False, p_id = 2, p_rating = 9 / 2,
               p_reviewCount = 7\<rparr>"
    by (simp add: cart_AB_eq shop_AB_eq MemStorage_defs)
  have v: "Map_values (orders cart_AB) = []" "Map_values (orderItems cart_AB) = []"
    "orderItemId cart_AB = 1"
    by (simp_all add: cart_AB_eq shop_AB_eq Map_values_def)
  show ?thesis
    using C2_checkout_of_two_lines[OF h1 h2 _ _ _ _ h7 _ _ _ h11, of "''Main St''" 36 0] h1
    unfolding v h2 by (simp add: numeral_2_eq_2)
qed

text \<open>
  C3. In a well-formed state where the cart of user \<open>u\<close> has a line whose product does not
  resolve and a line whose product does, checkout succeeds, appends exactly one order, and
  the order items it appends are, in cart order, one per resolving line with that line's
  product and quantity and none for the other lines; the cart listing of \<open>u\<close> is empty
  afterwards.
\<close>

theorem C3_unresolved_lines_skipped:
  assumes "MemStorage_wf s"
    and "\<exists>c \<in> set (MemStorage_getCartItems s u).
           MemStorage_getProductById s (ci_productId c) = None"
    and "\<exists>c \<in> set (MemStorage_getCartItems s u).
           MemStorage_getProductById s (ci_productId c) \<noteq> None"
  shows "\<exists>order s' new.
     post_orders u a t d s = (Inr order, s') \<and>
     Map_values (orders s') = Map_values (orders s) @ [order] \<and>
     Map_values (orderItems s') = Map_values (orderItems s) @ new \<and>
     map (\<lambda>i. (oi_orderId i, oi_productId i, oi_quantity i)) new =
       map (\<lambda>c. (o_id order, ci_productId c, ci_quantity c))
         (filter (\<lambda>c. MemStorage_getProductById s (ci_productId c) \<noteq> None)
            (MemStorage_getCartItems s u)) \<and>
     MemStorage_getCartItems s' u = []"
proof -
  have ne: "MemStorage_getCartItems s u \<noteq> []" using assms(3) by auto
  obtain order s' new where r: "post_orders u a t d s = (Inr order, s')"
    "Map_values (orders s') = Map_values (orders s) @ [order]"
    "Map_values (orderItems s') = Map_values (orderItems s) @ new"
    "new = map snd (map (line_item order (products s))
             (enumerate (orderItemId s)
                (filter (\<lambda>c. MemStorage_getProductById s (ci_productId c) \<noteq> None)
                   (MemStorage_getCartItems s u))))"
    "MemStorage_getCartItems s' u = []"
    using post_orders_created[OF assms(1) ne, of a t d] by blast
  have "map (\<lambda>i. (oi_orderId i, oi_productId i, oi_quantity i)) new =
       map (\<lambda>c. (o_id order, ci_productId c, ci_quantity c))
         (filter (\<lambda>c. MemStorage_getProductById s (ci_productId c) \<noteq> None)
            (MemStorage_getCartItems s u))"
    unfolding r(4) map_map o_def
    by (rule line_items_fields[where f = "\<lambda>a b c d. (a, b, c)"])
  with r show ?thesis by blast
qed

theorem C3_unresolved_lines_skipped_witness:
  "MemStorage_wf cart_missing \<and>
   map ci_productId (MemStorage_getCartItems cart_missing 1) = [1, 2, 7] \<and>
   MemStorage_getProductById cart_missing 7 = None \<and>
   (\<exists>order s' new.
     post_orders 1 ''Main St'' 36 0 cart_missing = (Inr order, s') \<and>
     Map_values (orders s') = Map_values (orders cart_missing) @ [order] \<and>
     Map_values (orderItems s') = Map_values (orderItems cart_missing) @ new \<and>
     map (\<lambda>i. (oi_orderId i, oi_productId i, oi_quantity i)) new =
       [(o_id order, 1, 2), (o_id order, 2, 1)] \<and>
     MemStorage_getCartItems s' 1 = [])"
proof -
  have h1: "MemStorage_wf cart_missing" by (rule wf_examples)
  have h2: "\<exists>c \<in> set (MemStorage_getCartItems cart_missing 1).
           MemStorage_getProductById cart_missing (ci_productId c) = None"
    by (simp add: cart_missing_eq shop_AB_eq MemStorage_defs)
  have h3: "\<exists>c \<in> set (MemStorage_getCartItems cart_missing 1).
           MemStorage_getProductById cart_missing (ci_productId c) \<noteq> None"
    by (simp add: cart_missing_eq shop_AB_eq MemStorage_defs)
  have e: "map (\<lambda>c. (x, ci_productId c, ci_quantity c))
         (filter (\<lambda>c. MemStorage_getProductById cart_missing (ci_productId c) \<noteq> None)
            (MemStorage_getCartItems cart_missing 1)) = [(x, 1, 2), (x, 2, 1)]" for x :: nat
    by (simp add: cart_missing_eq shop_AB_eq MemStorage_defs)
  show ?thesis
    using C3_unresolved_lines_skipped[OF h1 h2 h3, of "''Main St''" 36 0] h1
    unfolding e
    by (simp add: cart_missing_eq shop_AB_eq MemStorage_defs)
qed

text \<open>
  C4 (the code departs from the claim). The claim: the three adapters return the same
  results, in particular the same boolean from \<open>deleteCartItem\<close> and \<open>clearCart\<close>. On empty
  stores: \<open>deleteCartItem(1)\<close> answers \<open>false\<close> in the in-memory and the document adapter
  and \<open>true\<close> in the relational one, and \<open>clearCart(1)\<close> answers \<open>true\<close> in the in-memory
  and the relational adapter and \<open>false\<close> in the document one.
\<close>

theorem C4_adapters_disagree_on_delete_results:
  "fst (MemStorage_deleteCartItem 1 MemStorage_new) = False \<and>
   fst (PgStorage_deleteCartItem 1 PgStorage_empty) = True \<and>
   fst (MongoDbStorage_deleteCartItem 1 MongoDb_empty) = False \<and>
   fst (MemStorage_clearCart 1 MemStorage_new) = True \<and>
   fst (PgStorage_clearCart 1 PgStorage_empty) = True \<and>
   fst (MongoDbStorage_clearCart 1 MongoDb_empty) = False"
  by (simp add: MemStorage_defs PgStorage_defs MongoDbStorage_defs Let_def)

text \<open>
  C5 (amended). The claim reads the effective price as: the sale price if the product is on
  sale and a sale price is set, otherwise the list price, also for a sale price of 0. The
  handler tests the sale price for truthiness, so what holds is: every order item created
  at checkout carries the sale price if the product is on sale and its sale price is set
  and not 0, and the list price otherwise (\<open>effectivePrice\<close>), taken from the product as
  stored at that moment. The counterexample is product Z, on sale with sale price 0 and
  list price 10.00: the order item records 10.00, the effective price in the words of the
  claim is 0.
\<close>

theorem C5_order_item_price:
  assumes "MemStorage_wf s" and "MemStorage_getCartItems s u \<noteq> []"
  shows "\<exists>order s' new.
     post_orders u a t d s = (Inr order, s') \<and>
     Map_values (orderItems s') = Map_values (orderItems s) @ new \<and>
     map (\<lambda>i. (oi_productId i, oi_price i)) new =
       List.map_filter
         (\<lambda>c. map_option (\<lambda>product. (ci_productId c, effectivePrice product))
                 (MemStorage_getProductById s (ci_productId c)))
         (MemStorage_getCartItems s u)"
proof -
  obtain order s' new where r: "post_orders u a t d s = (Inr order, s')"
    "Map_values (orderItems s') = Map_values (orderItems s) @ new"
    "new = map snd (map (line_item order (products s))
             (enumerate (orderItemId s)
                (filter (\<lambda>c. MemStorage_getProductById s (ci_productId c) \<noteq> None)
                   (MemStorage_getCartItems s u))))"
    using post_orders_created[OF assms, of a t d] by blast
  have "map (\<lambda>i. (oi_productId i, oi_price i)) new =
       List.map_filter
         (\<lambda>c. map_option (\<lambda>product. (ci_productId c, effectivePrice product))
                 (MemStorage_getProductById s (ci_productId c)))
         (MemStorage_getCartItems s u)"
    unfolding r(3) map_map o_def map_filter_def
      line_items_fields[where f = "\<lambda>a b c d. (b, d)"]
    by (auto simp: MemStorage_getProductById_def intro!: map_cong filter_cong)
  with r show ?thesis by blast
qed

theorem C5_order_item_price_witness:
  "MemStorage_wf cart_Z \<and> MemStorage_getCartItems cart_Z 1 \<noteq> [] \<and>
   (\<exists>order s' new.
     post_orders 1 ''Main St'' 10 0 cart_Z = (Inr order, s') \<and>
     Map_values (orderItems s') = Map_values (orderItems cart_Z) @ new \<and>
     map (\<lambda>i. (oi_productId i, oi_price i)) new = [(1, 10)])"
proof -
  have h1: "MemStorage_wf cart_Z" by (rule wf_examples)
  have h2: "MemStorage_getCartItems cart_Z 1 \<noteq> []"
    by (simp add: cart_Z_eq MemStorage_defs)
  have e: "List.map_filter
         (\<lambda>c. map_option (\<lambda>product. (ci_productId c, effectivePrice product))
                 (MemStorage_getProductById cart_Z (ci_productId c)))
         (MemStorage_getCartItems cart_Z 1) = [(1, 10)]"
    by (simp add: cart_Z_eq MemStorage_defs map_filter_def effectivePrice_def)
  show ?thesis
    using C5_order_item_price[OF h1 h2, of "''Main St''" 10 0] h1 h2
    unfolding e by simp
qed

theorem C5_sale_price_zero_counterexample:
  "map_option p_isOnSale (MemStorage_getProductById cart_Z 1) = Some True \<and>
   map_option p_salePrice (MemStorage_getProductById cart_Z 1) = Some (Some 0) \<and>
   map_option spec_effectivePrice (MemStorage_getProductById cart_Z 1) = Some 0 \<and>
   map oi_productId (Map_values (orderItems (snd (post_orders 1 ''Main St'' 10 0 cart_Z)))) = [1] \<and>
   map oi_price (Map_values (orderItems (snd (post_orders 1 ''Main St'' 10 0 cart_Z)))) = [10] \<and>
   map oi_price (Map_values (orderItems (snd (post_orders 1 ''Main St'' 10 0 cart_Z)))) \<noteq>
     map spec_effectivePrice (Map_values (products cart_Z))"
  by (simp add: cart_Z_eq post_orders_def MemStorage_defs extend_defs Let_def
      spec_effectivePrice_def effectivePrice_def)

text \<open>
  C6. Run any sequence of mutating storage calls (creates of every entity mixed with
  \<open>updateCartItem\<close>, \<open>deleteCartItem\<close> and \<open>clearCart\<close>) on the freshly constructed
  storage. For each collection the ids returned by its create calls are, in the order of
  issue, exactly 1, 2, 3, ...: the first is 1, each is greater than all earlier ones, and
  none is issued twice, whatever was deleted in between. The ids are natural numbers; the
  JavaScript counter is a double, exact far beyond any number of calls a process makes.
\<close>

theorem C6_ids_start_at_one_and_increase:
  "issued_ids c calls MemStorage_new = [1 ..< 1 + length (filter (creates c) calls)] \<and>
   sorted_wrt (<) (issued_ids c calls MemStorage_new) \<and>
   distinct (issued_ids c calls MemStorage_new)"
proof -
  have "counter c MemStorage_new = 1" by (cases c) (simp_all add: MemStorage_new_def)
  then have e: "issued_ids c calls MemStorage_new = [1 ..< 1 + length (filter (creates c) calls)]"
    using issued_ids_upt[of c calls MemStorage_new] by simp
  show ?thesis
    unfolding e by (intro conjI refl sorted_wrt_upt distinct_upt)
qed

text \<open>
  C7. Start from a state with at most one cart item per (user, product) pair. After any
  sequence of the cart and order requests (\<open>POST /cart\<close>, which follows check-then-create,
  \<open>PUT /cart/:id\<close>, \<open>DELETE /cart/:id\<close>, \<open>DELETE /cart\<close>, \<open>POST /orders\<close>) there is still at
  most one cart item per pair; and in the state reached, if \<open>getCartItem\<close> finds no row for a
  pair, then after \<open>createCartItem\<close> for that pair \<open>getCartItem\<close> returns the row just created.
\<close>

theorem C7_check_then_create_unique:
  assumes "cart_unique s"
  shows "cart_unique (handle_all reqs s) \<and>
    (MemStorage_getCartItem (handle_all reqs s) u p = None \<longrightarrow>
       MemStorage_getCartItem
         (snd (MemStorage_createCartItem
                 \<lparr>ci_userId = u, ci_productId = p, ci_quantity = q\<rparr> (handle_all reqs s))) u p =
       Some (fst (MemStorage_createCartItem
                 \<lparr>ci_userId = u, ci_productId = p, ci_quantity = q\<rparr> (handle_all reqs s))))"
proof -
  have "MemStorage_getCartItem s' u p = None \<Longrightarrow>
       MemStorage_getCartItem
         (snd (MemStorage_createCartItem
                 \<lparr>ci_userId = u, ci_productId = p, ci_quantity = q\<rparr> s')) u p =
       Some (fst (MemStorage_createCartItem
                 \<lparr>ci_userId = u, ci_productId = p, ci_quantity = q\<rparr> s'))" for s'
    using find_Map_set_new[of "\<lambda>item. ci_userId item = u \<and> ci_productId item = p"
        "cartItems s'"
        "InsertCartItem.extend \<lparr>ci_userId = u, ci_productId = p, ci_quantity = q\<rparr>
           (CartItem.fields (cartItemId s'))" "cartItemId s'"]
    by (simp add: MemStorage_getCartItem_def MemStorage_createCartItem_def Let_def)
  then show ?thesis using cart_unique_handle_all[OF assms] by blast
qed

theorem C7_check_then_create_unique_witness:
  "cart_unique shop_AB \<and>
   cart_unique (handle_all [PostCart 1 1 2, PostCart 1 1 3, PostCart 1 2 1] shop_AB) \<and>
   Map_values (cartItems (handle_all [PostCart 1 1 2, PostCart 1 1 3, PostCart 1 2 1] shop_AB)) =
     [\<lparr>ci_userId = 1, ci_productId = 1, ci_quantity = 5, ci_id = 1\<rparr>,
      \<lparr>ci_userId = 1, ci_productId = 2, ci_quantity = 1, ci_id = 2\<rparr>] \<and>
   MemStorage_getCartItem
     (handle_all [PostCart 1 1 2, PostCart 1 1 3, PostCart 1 2 1] shop_AB) 2 1 = None \<and>
   MemStorage_getCartItem
     (snd (MemStorage_createCartItem \<lparr>ci_userId = 2, ci_productId = 1, ci_quantity = 4\<rparr>
        (handle_all [PostCart 1 1 2, PostCart 1 1 3, PostCart 1 2 1] shop_AB))) 2 1 =
     Some \<lparr>ci_userId = 2, ci_productId = 1, ci_quantity = 4, ci_id = 3\<rparr>"
proof -
  have h: "cart_unique shop_AB" by (simp add: shop_AB_eq cart_unique_def Map_values_def)
  have n: "MemStorage_getCartItem
     (handle_all [PostCart 1 1 2, PostCart 1 1 3, PostCart 1 2 1] shop_AB) 2 1 = None"
    unfolding handle_all_example by (simp add: shop_AB_eq MemStorage_defs)
  have c: "fst (MemStorage_createCartItem \<lparr>ci_userId = 2, ci_productId = 1, ci_quantity = 4\<rparr>
        (handle_all [PostCart 1 1 2, PostCart 1 1 3, PostCart 1 2 1] shop_AB)) =
      \<lparr>ci_userId = 2, ci_productId = 1, ci_quantity = 4, ci_id = 3\<rparr>"
    unfolding handle_all_example by (simp add: shop_AB_eq MemStorage_defs extend_defs Let_def)
  have v: "Map_values (cartItems (handle_all [PostCart 1 1 2, PostCart 1 1 3, PostCart 1 2 1] shop_AB)) =
     [\<lparr>ci_userId = 1, ci_productId = 1, ci_quantity = 5, ci_id = 1\<rparr>,
      \<lparr>ci_userId = 1, ci_productId = 2, ci_quantity = 1, ci_id = 2\<rparr>]"
    unfolding handle_all_example by (simp add: Map_values_def)
  show ?thesis
    using C7_check_then_create_unique[OF h,
        of "[PostCart 1 1 2, PostCart 1 1 3, PostCart 1 2 1]" 2 1 4] h n
    unfolding c v by simp
qed

text \<open>
  C8. For each of the three backends and each entity that has a get-by-id operation (user,
  category, product, order), create followed by get-by-id on the id of the returned record
  returns that record. For the relational and the document backend the store is one in
  which every id present was issued by the store's own generator (\<open>PgStorage_wf\<close>,
  \<open>MongoDb_wf\<close>), as in every store that was filled through the adapter.
\<close>

theorem C8_create_then_get_by_id:
  assumes "PgStorage_wf pg" and "MongoDb_wf mg"
  shows
    "create_then_get (MemStorage_createUser user) MemStorage_getUser u_id s \<and>
     create_then_get (MemStorage_createCategory category) MemStorage_getCategoryById c_id s \<and>
     create_then_get (MemStorage_createProduct product rnd) MemStorage_getProductById p_id s \<and>
     create_then_get (MemStorage_createOrder order date) MemStorage_getOrderById o_id s \<and>
     create_then_get (PgStorage_createUser user) PgStorage_getUser u_id pg \<and>
     create_then_get (PgStorage_createCategory category) PgStorage_getCategoryById c_id pg \<and>
     create_then_get (PgStorage_createProduct product rnd) PgStorage_getProductById p_id pg \<and>
     create_then_get (PgStorage_createOrder order date) PgStorage_getOrderById o_id pg \<and>
     create_then_get (MongoDbStorage_createUser user) MongoDbStorage_getUser u_id mg \<and>
     create_then_get (MongoDbStorage_createCategory category)
       MongoDbStorage_getCategoryById c_id mg \<and>
     create_then_get (MongoDbStorage_createProduct product rnd)
       MongoDbStorage_getProductById p_id mg \<and>
     create_then_get (MongoDbStorage_createOrder order date) MongoDbStorage_getOrderById o_id mg"
proof -
  have mem: "create_then_get (MemStorage_createUser user) MemStorage_getUser u_id s"
    "create_then_get (MemStorage_createCategory category) MemStorage_getCategoryById c_id s"
    "create_then_get (MemStorage_createProduct product rnd) MemStorage_getProductById p_id s"
    "create_then_get (MemStorage_createOrder order date) MemStorage_getOrderById o_id s"
    by (simp_all add: create_then_get_def MemStorage_createUser_def MemStorage_getUser_def
        MemStorage_createCategory_def MemStorage_getCategoryById_def
        MemStorage_createProduct_def MemStorage_getProductById_def
        MemStorage_createOrder_def MemStorage_getOrderById_def Let_def Map_get_set)
  have wp: "pg_table_wf u_id (pg_users pg)" "pg_table_wf c_id (pg_categories pg)"
    "pg_table_wf p_id (pg_products pg)" "pg_table_wf o_id (pg_orders pg)"
    using assms(1) by (simp_all add: PgStorage_wf_def)
  have pgu: "create_then_get (PgStorage_createUser user) PgStorage_getUser u_id pg"
    using pg_roundtrip[OF wp(1), of "\<lambda>i. InsertUser.extend user (User.fields i False)"]
    by (simp add: create_then_get_def PgStorage_createUser_def PgStorage_getUser_def
        case_prod_beta)
  have pgc: "create_then_get (PgStorage_createCategory category) PgStorage_getCategoryById c_id pg"
    using pg_roundtrip[OF wp(2), of "\<lambda>i. InsertCategory.extend category (Category.fields i)"]
    by (simp add: create_then_get_def PgStorage_createCategory_def
        PgStorage_getCategoryById_def case_prod_beta)
  have pgp: "create_then_get (PgStorage_createProduct product rnd) PgStorage_getProductById p_id pg"
    using pg_roundtrip[OF wp(3),
        of "\<lambda>i. InsertProduct.extend product (Product.fields i (9 / 2) (rnd + 1))"]
    by (simp add: create_then_get_def PgStorage_createProduct_def
        PgStorage_getProductById_def case_prod_beta)
  have pgo: "create_then_get (PgStorage_createOrder order date) PgStorage_getOrderById o_id pg"
    using pg_roundtrip[OF wp(4), of "\<lambda>i. InsertOrder.extend order (Order.fields i date)"]
    by (simp add: create_then_get_def PgStorage_createOrder_def
        PgStorage_getOrderById_def case_prod_beta)
  have wm: "mg_collection_wf u_id (mg_counters mg ''users'') (mg_users mg)"
    "mg_collection_wf c_id (mg_counters mg ''categories'') (mg_categories mg)"
    "mg_collection_wf p_id (mg_counters mg ''products'') (mg_products mg)"
    "mg_collection_wf o_id (mg_counters mg ''orders'') (mg_orders mg)"
    using assms(2) by (simp_all add: MongoDb_wf_def)
  have mgu: "create_then_get (MongoDbStorage_createUser user) MongoDbStorage_getUser u_id mg"
    using mg_roundtrip[OF wm(1), of "InsertUser.extend user
        (User.fields (case mg_counters mg ''users'' of None \<Rightarrow> 1 | Some n \<Rightarrow> n + 1) False)"]
    by (simp add: create_then_get_def MongoDbStorage_createUser_def MongoDbStorage_getUser_def
        MongoDbStorage_getNextId_def Let_def)
  have mgc: "create_then_get (MongoDbStorage_createCategory category)
       MongoDbStorage_getCategoryById c_id mg"
    using mg_roundtrip[OF wm(2), of "InsertCategory.extend category
        (Category.fields (case mg_counters mg ''categories'' of None \<Rightarrow> 1 | Some n \<Rightarrow> n + 1))"]
    by (simp add: create_then_get_def MongoDbStorage_createCategory_def
        MongoDbStorage_getCategoryById_def MongoDbStorage_getNextId_def Let_def)
  have mgp: "create_then_get (MongoDbStorage_createProduct product rnd)
       MongoDbStorage_getProductById p_id mg"
    using mg_roundtrip[OF wm(3), of "InsertProduct.extend product
        (Product.fields (case mg_counters mg ''products'' of None \<Rightarrow> 1 | Some n \<Rightarrow> n + 1)
           (9 / 2) (rnd + 1))"]
    by (simp add: create_then_get_def MongoDbStorage_createProduct_def
        MongoDbStorage_getProductById_def MongoDbStorage_getNextId_def Let_def)
  have mgo: "create_then_get (MongoDbStorage_createOrder order date)
       MongoDbStorage_getOrderById o_id mg"
    using mg_roundtrip[OF wm(4), of "InsertOrder.extend order
        (Order.fields (case mg_counters mg ''orders'' of None \<Rightarrow> 1 | Some n \<Rightarrow> n + 1) date)"]
    by (simp add: create_then_get_def MongoDbStorage_createOrder_def
        MongoDbStorage_getOrderById_def MongoDbStorage_getNextId_def Let_def)
  show ?thesis
    using mem pgu pgc pgp pgo mgu mgc mgp mgo by (intro conjI)
qed

theorem C8_create_then_get_by_id_witness:
  "PgStorage_wf (snd (PgStorage_createUser user_ann PgStorage_empty)) \<and>
   MongoDb_wf (snd (MongoDbStorage_createUser user_ann MongoDb_empty)) \<and>
   MemStorage_getUser (snd (MemStorage_createUser user_ann cart_AB)) 1 =
     Some (fst (MemStorage_createUser user_ann cart_AB)) \<and>
   MemStorage_getProductById (snd (MemStorage_createProduct product_Z 9 cart_AB)) 3 =
     Some (fst (MemStorage_createProduct product_Z 9 cart_AB)) \<and>
   PgStorage_getUser
     (snd (PgStorage_createUser user_ann (snd (PgStorage_createUser user_ann PgStorage_empty)))) 2 =
     Some (fst (PgStorage_createUser user_ann
                  (snd (PgStorage_createUser user_ann PgStorage_empty)))) \<and>
   PgStorage_getOrderById
     (snd (PgStorage_createOrder order_one 7
             (snd (PgStorage_createUser user_ann PgStorage_empty)))) 1 =
     Some (fst (PgStorage_createOrder order_one 7
                  (snd (PgStorage_createUser user_ann PgStorage_empty)))) \<and>
   MongoDbStorage_getUser
     (snd (MongoDbStorage_createUser user_ann
             (snd (MongoDbStorage_createUser user_ann MongoDb_empty)))) 2 =
     Some (fst (MongoDbStorage_createUser user_ann
                  (snd (MongoDbStorage_createUser user_ann MongoDb_empty)))) \<and>
   MongoDbStorage_getCategoryById
     (snd (MongoDbStorage_createCategory category_books
             (snd (MongoDbStorage_createUser user_ann MongoDb_empty)))) 1 =
     Some (fst (MongoDbStorage_createCategory category_books
                  (snd (MongoDbStorage_createUser user_ann MongoDb_empty))))"
proof -
  let ?pg = "snd (PgStorage_createUser user_ann PgStorage_empty)"
  let ?mg = "snd (MongoDbStorage_createUser user_ann MongoDb_empty)"
  have i: "u_id (fst (MemStorage_createUser user_ann cart_AB)) = 1"
    "p_id (fst (MemStorage_createProduct product_Z 9 cart_AB)) = 3"
    "u_id (fst (PgStorage_createUser user_ann ?pg)) = 2"
    "o_id (fst (PgStorage_createOrder order_one 7 ?pg)) = 1"
    "u_id (fst (MongoDbStorage_createUser user_ann ?mg)) = 2"
    "c_id (fst (MongoDbStorage_createCategory category_books ?mg)) = 1"
    by (simp_all add: cart_AB_eq shop_AB_eq MemStorage_defs PgStorage_defs MongoDbStorage_defs
        Let_def)
  show ?thesis
    using C8_create_then_get_by_id[OF wf_stores, of user_ann cart_AB category_books
        product_Z 9 order_one 7] wf_stores
    unfolding create_then_get_def i by simp
qed

text \<open>
  C9. In every well-formed in-memory state, and in every state of the relational and of the
  document store, after \<open>clearCart(u)\<close> the cart listing of \<open>u\<close> is empty, the cart listing
  of every other user is what it was, and the state differs from the one before in the
  cart items only (users, categories, products, orders, order items and the id generators
  are the same).
\<close>

theorem C9_clearCart_frame:
  assumes "MemStorage_wf s"
  shows
    "MemStorage_getCartItems (snd (MemStorage_clearCart u s)) u = [] \<and>
     (\<forall>v. v \<noteq> u \<longrightarrow>
        MemStorage_getCartItems (snd (MemStorage_clearCart u s)) v =
        MemStorage_getCartItems s v) \<and>
     snd (MemStorage_clearCart u s) =
       s\<lparr>cartItems := cartItems (snd (MemStorage_clearCart u s))\<rparr> \<and>
     PgStorage_getCartItems (snd (PgStorage_clearCart u pg)) u = [] \<and>
     (\<forall>v. v \<noteq> u \<longrightarrow>
        PgStorage_getCartItems (snd (PgStorage_clearCart u pg)) v =
        PgStorage_getCartItems pg v) \<and>
     snd (PgStorage_clearCart u pg) =
       pg\<lparr>pg_cartItems := pg_cartItems (snd (PgStorage_clearCart u pg))\<rparr> \<and>
     MongoDbStorage_getCartItems (snd (MongoDbStorage_clearCart u mg)) u = [] \<and>
     (\<forall>v. v \<noteq> u \<longrightarrow>
        MongoDbStorage_getCartItems (snd (MongoDbStorage_clearCart u mg)) v =
        MongoDbStorage_getCartItems mg v) \<and>
     snd (MongoDbStorage_clearCart u mg) =
       mg\<lparr>mg_cartItems := mg_cartItems (snd (MongoDbStorage_clearCart u mg))\<rparr>"
proof -
  have wfc: "Map_wf ci_id (cartItemId s) (cartItems s)"
    using assms by (simp add: MemStorage_wf_def)
  have mem: "MemStorage_getCartItems (snd (MemStorage_clearCart u s)) u = []"
    "\<forall>v. v \<noteq> u \<longrightarrow>
        MemStorage_getCartItems (snd (MemStorage_clearCart u s)) v =
        MemStorage_getCartItems s v"
    "snd (MemStorage_clearCart u s) =
       s\<lparr>cartItems := cartItems (snd (MemStorage_clearCart u s))\<rparr>"
    unfolding MemStorage_clearCart_eq[OF wfc]
    by (auto simp: MemStorage_getCartItems_def
        Map_values_filter_snd[of "\<lambda>c. ci_userId c \<noteq> u"] intro!: filter_cong)
  have pg: "PgStorage_getCartItems (snd (PgStorage_clearCart u pg)) u = []"
    "\<forall>v. v \<noteq> u \<longrightarrow>
        PgStorage_getCartItems (snd (PgStorage_clearCart u pg)) v =
        PgStorage_getCartItems pg v"
    "snd (PgStorage_clearCart u pg) =
       pg\<lparr>pg_cartItems := pg_cartItems (snd (PgStorage_clearCart u pg))\<rparr>"
    by (auto simp: PgStorage_getCartItems_def PgStorage_clearCart_def pg_select_def
        pg_delete_def intro!: filter_cong)
  have mg: "MongoDbStorage_getCartItems (snd (MongoDbStorage_clearCart u mg)) u = []"
    "\<forall>v. v \<noteq> u \<longrightarrow>
        MongoDbStorage_getCartItems (snd (MongoDbStorage_clearCart u mg)) v =
        MongoDbStorage_getCartItems mg v"
    "snd (MongoDbStorage_clearCart u mg) =
       mg\<lparr>mg_cartItems := mg_cartItems (snd (MongoDbStorage_clearCart u mg))\<rparr>"
    by (auto simp: MongoDbStorage_getCartItems_def MongoDbStorage_clearCart_def
        deleteMany_def intro!: filter_cong)
  show ?thesis using mem pg mg by (intro conjI)
qed

theorem C9_clearCart_frame_witness:
  "MemStorage_wf cart_missing \<and>
   map ci_id (MemStorage_getCartItems cart_missing 1) = [1, 2, 3] \<and>
   MemStorage_getCartItems (snd (MemStorage_clearCart 1 cart_missing)) 1 = [] \<and>
   MemStorage_getCartItems (snd (MemStorage_clearCart 1 cart_missing)) 2 =
     [\<lparr>ci_userId = 2, ci_productId = 2, ci_quantity = 4, ci_id = 4\<rparr>] \<and>
   products (snd (MemStorage_clearCart 1 cart_missing)) = products cart_missing \<and>
   PgStorage_getCartItems (snd (PgStorage_clearCart 1 pg_carts)) 1 = [] \<and>
   PgStorage_getCartItems (snd (PgStorage_clearCart 1 pg_carts)) 2 =
     [\<lparr>ci_userId = 2, ci_productId = 2, ci_quantity = 4, ci_id = 2\<rparr>] \<and>
   MongoDbStorage_getCartItems (snd (MongoDbStorage_clearCart 1 mg_carts)) 1 = [] \<and>
   MongoDbStorage_getCartItems (snd (MongoDbStorage_clearCart 1 mg_carts)) 2 =
     [\<lparr>ci_userId = 2, ci_productId = 2, ci_quantity = 4, ci_id = 2\<rparr>]"
proof -
  have h: "MemStorage_wf cart_missing" by (rule wf_examples)
  note t = C9_clearCart_frame[OF h, of 1 pg_carts mg_carts]
  have before: "map ci_id (MemStorage_getCartItems cart_missing 1) = [1, 2, 3]"
    "MemStorage_getCartItems cart_missing 2 =
       [\<lparr>ci_userId = 2, ci_productId = 2, ci_quantity = 4, ci_id = 4\<rparr>]"
    "PgStorage_getCartItems pg_carts 2 =
       [\<lparr>ci_userId = 2, ci_productId = 2, ci_quantity = 4, ci_id = 2\<rparr>]"
    "MongoDbStorage_getCartItems mg_carts 2 =
       [\<lparr>ci_userId = 2, ci_productId = 2, ci_quantity = 4, ci_id = 2\<rparr>]"
    by (simp_all add: cart_missing_eq shop_AB_eq MemStorage_getCartItems_def Map_values_def
        PgStorage_getCartItems_def pg_select_def pg_carts_rows
        MongoDbStorage_getCartItems_def mg_carts_docs)
  have two: "(2::nat) \<noteq> 1" by simp
  have frame: "products (snd (MemStorage_clearCart 1 cart_missing)) = products cart_missing"
    using t by (metis MemStorage.select_convs(3) MemStorage.surjective MemStorage.update_convs(6))
  show ?thesis
    using t h before two frame by metis
qed

text \<open>
  C10. Each \<open>getNextId\<close> call is one atomic increment-and-fetch on the counter document, so
  the calls of concurrent callers reach the store in some order. For every such order, every
  collection \<open>c\<close> and every starting store: the \<open>N\<close> calls for \<open>c\<close> return the \<open>N\<close> values
  that follow the counter's value, one after the other: pairwise distinct, consecutive,
  without a duplicate and without a gap, however the calls for other collections are
  interleaved.
\<close>

theorem C10_concurrent_getNextId_distinct_consecutive:
  "returned_ids c schedule db =
     [Suc (sequence_value c db) ..<
      Suc (sequence_value c db) + length (filter (\<lambda>c'. c' = c) schedule)] \<and>
   length (returned_ids c schedule db) = length (filter (\<lambda>c'. c' = c) schedule) \<and>
   distinct (returned_ids c schedule db) \<and>
   sorted_wrt (<) (returned_ids c schedule db)"
  unfolding returned_ids_upt
  by (intro conjI refl distinct_upt sorted_wrt_upt)
     (simp only: length_upt add_diff_cancel_left')

end
